theory Spec2Isabelle
  imports Main "HOL-Library.Sublist" "HOL-Library.Word"
begin

section \<open>The RobustIRC node: startup and main loop of robustirc.go\<close>

text \<open>
  The Go program's \<^verbatim>\<open>main\<close> is one long sequence of steps that either go on or end
  the process (\<^verbatim>\<open>log.Fatal\<close> prints and calls \<^verbatim>\<open>os.Exit(1)\<close>; a \<^verbatim>\<open>return\<close> from
  \<^verbatim>\<open>main\<close> is exit code 0). The model threads a state (the flag variables, the
  disk, the trace of effects so far) through one function per block of \<^verbatim>\<open>main\<close>, in
  source order. Everything the program reads from outside (environment variables, the
  answers of other nodes, errors of the operating system, what the other packages
  return) is a field of the record \<open>env\<close>. The model is that of the main goroutine: the
  goroutine that counts the seconds spent in each Raft state (lines 475 to 480) only
  feeds a metric and is left out, as is the text of \<^verbatim>\<open>flag.Usage\<close>.
\<close>

subsection \<open>Paths and the disk\<close>

type_synonym error = string

text \<open>A cleaned path is the list of its components; \<^verbatim>\<open>filepath.Join(dir, name)\<close> adds one.\<close>

type_synonym path = "string list"

definition filepath_Join :: "path \<Rightarrow> string \<Rightarrow> path" where
  "filepath_Join dir name = dir @ [name]"

text \<open>
  A file either holds a JSON array of peer addresses (what \<^verbatim>\<open>peers.json\<close> is meant to
  hold) or any other bytes. A directory carries its permission bits.
\<close>

datatype content = Blob | PeersJSON "string list"

datatype node = Dir nat | File content

type_synonym fs = "(path \<times> node) list"

datatype os_call =
    SysRemoveAll path
  | SysMkdir path
  | SysOpen path
  | SysReaddirnames path
  | SysRemove path
  | SysCreate path
  | SysReadFile path
  | SysWriteFile path

subsection \<open>Messages, Raft states and what the outside world answers\<close>

text \<open>The record types of a log entry, and the Raft library's node states.\<close>

datatype msg_type = CreateSession | DeleteSession | IRCFromClient | IRCToClient | Config | Ping

record message =
  msg_session :: "64 word"
  msg_type :: msg_type

datatype raft_state = Follower | Candidate | Leader | Shutdown

text \<open>\<^verbatim>\<open>time.Duration\<close> counts nanoseconds in an int64; the values here are far from its bounds.\<close>

definition Second :: int where
  "Second = 1000000000"

definition expireSessionsInterval :: int where
  "expireSessionsInterval = 10 * Second"

text \<open>The Raft configuration as far as \<^verbatim>\<open>main\<close> sets it.\<close>

record raft_config =
  EnableSingleNode :: bool
  StartAsLeader :: bool
  SnapshotInterval :: int
  MaxAppendEntries :: nat
  LeaderLeaseTimeout :: int
  HeartbeatTimeout :: int
  ElectionTimeout :: int

text \<open>The objects \<^verbatim>\<open>main\<close> constructs, each with the arguments \<^verbatim>\<open>main\<close> passes.\<close>

datatype component =
    NewIRCServer path string int
  | NewHTTPTransport string string
  | NewJSONPeers path
  | NewFileSnapshotStoreWithLogger path nat
  | NewPrometheusSink
  | NewLevelDBStore path bool
  | NewLogCache nat
  | NewRaft raft_config
  | NewHTTP string string path string
  | ConfigureServer
  | NewKeypairReloader string string
  | Listen string

text \<open>The result of \<^verbatim>\<open>client.Do\<close>: an error, or a response with its status code, its
  \<^verbatim>\<open>Location\<close> header (empty when absent) and its body.\<close>

datatype http_result = DoError error | Response int string string

datatype event =
    Log string
  | Sleep int
  | Sys os_call
  | Init component
  | SynchronizedWithNetwork string "string list" string "error option"
  | SynchronizedWithMasterAndNetwork string string string "error option"
  | JoinRequest string
  | SetPeers "string list" "error option"
  | NodeSetPeers "string list"
  | Serve
  | Canary string
  | WriteHeapProfile
  | After int
  | Tick int
  | ApplyMessageWait message int

record flags =
  raftDir :: path
  listen :: string
  version :: bool
  singleNode :: bool
  join :: string
  dumpCanaryState :: string
  dumpHeapProfile :: string
  canaryCompactionStart :: "64 word"
  network :: string
  peerAddr :: string
  tlsCertPath :: string
  tlsKeyPath :: string
  networkPassword :: string

record state =
  flag :: flags
  disk :: fs
  trace :: "event list"
  requests :: nat

record env =
  getenv :: "string \<Rightarrow> string"
  time_Now :: int
  os_fault :: "os_call \<Rightarrow> error option"
  DisableTimesafeguard :: bool
  timesafeguard_ElectionTimeout :: int
  timesafeguard_SynchronizedWithNetwork :: "string \<Rightarrow> string list \<Rightarrow> string \<Rightarrow> error option"
  timesafeguard_SynchronizedWithMasterAndNetwork :: "string \<Rightarrow> string \<Rightarrow> string \<Rightarrow> error option"
  outputstream_DeleteOldDatabases :: "path \<Rightarrow> fs \<Rightarrow> error + fs"
  construct :: "component \<Rightarrow> fs \<Rightarrow> error + fs"
  construct_effect :: "component \<Rightarrow> fs \<Rightarrow> fs"
  json_Marshal :: "string \<Rightarrow> error + string"
  http_NewRequest :: "string \<Rightarrow> error option"
  client_Do :: "nat \<Rightarrow> string \<Rightarrow> string \<Rightarrow> http_result"
  url_Parse :: "string \<Rightarrow> error + string"

text \<open>A step of \<^verbatim>\<open>main\<close> ends the process with an exit code, or goes on with a value.\<close>

datatype 'a result = Exit int state | Return 'a state

definition andThen :: "'a result \<Rightarrow> ('a \<Rightarrow> state \<Rightarrow> 'b result) \<Rightarrow> 'b result" where
  "andThen r f = (case r of Exit c s \<Rightarrow> Exit c s | Return a s \<Rightarrow> f a s)"

fun final :: "'a result \<Rightarrow> state" where
  "final (Exit c s) = s"
| "final (Return a s) = s"

definition emit :: "event \<Rightarrow> state \<Rightarrow> state" where
  "emit e s = s\<lparr>trace := trace s @ [e]\<rparr>"

definition log_Printf :: "string \<Rightarrow> state \<Rightarrow> state" where
  "log_Printf msg s = emit (Log msg) s"

definition log_Fatal :: "string \<Rightarrow> state \<Rightarrow> 'a result" where
  "log_Fatal msg s = Exit 1 (emit (Log msg) s)"

subsection \<open>The operating system's calls on the disk\<close>

text \<open>
  Each call fails when the environment says so (permissions, I/O errors) and where the
  tree itself makes it fail; \<^verbatim>\<open>os.Stat\<close> succeeds exactly on a path of the tree.
  The empty path is no file: \<^verbatim>\<open>os.RemoveAll("")\<close> does nothing and \<^verbatim>\<open>os.Mkdir("")\<close> fails.
\<close>

definition os_Stat :: "fs \<Rightarrow> path \<Rightarrow> error + node" where
  "os_Stat d p = (case map_of d p of None \<Rightarrow> Inl ''no such file or directory'' | Some n \<Rightarrow> Inr n)"

definition os_RemoveAll :: "env \<Rightarrow> path \<Rightarrow> fs \<Rightarrow> error + fs" where
  "os_RemoveAll env p d =
     (case os_fault env (SysRemoveAll p) of
        Some err \<Rightarrow> Inl err
      | None \<Rightarrow> if p = [] then Inr d else Inr (filter (\<lambda>(q, n). \<not> prefix p q) d))"

definition os_Mkdir :: "env \<Rightarrow> path \<Rightarrow> nat \<Rightarrow> fs \<Rightarrow> error + fs" where
  "os_Mkdir env p perm d =
     (case os_fault env (SysMkdir p) of
        Some err \<Rightarrow> Inl err
      | None \<Rightarrow>
          if p = [] then Inl ''no such file or directory''
          else if map_of d p \<noteq> None then Inl ''file exists''
          else if butlast p \<noteq> [] \<and> map_of d (butlast p) = None then Inl ''no such file or directory''
          else Inr (d @ [(p, Dir perm)]))"

definition os_Open :: "env \<Rightarrow> fs \<Rightarrow> path \<Rightarrow> error option" where
  "os_Open env d p =
     (case os_fault env (SysOpen p) of
        Some err \<Rightarrow> Some err
      | None \<Rightarrow> if p \<noteq> [] \<and> map_of d p = None then Some ''no such file or directory'' else None)"

definition os_Readdirnames :: "env \<Rightarrow> fs \<Rightarrow> path \<Rightarrow> error + string list" where
  "os_Readdirnames env d p =
     (case os_fault env (SysReaddirnames p) of
        Some err \<Rightarrow> Inl err
      | None \<Rightarrow> Inr (map (\<lambda>(q, n). last q) (filter (\<lambda>(q, n). q \<noteq> [] \<and> butlast q = p) d)))"

definition os_Remove :: "env \<Rightarrow> path \<Rightarrow> fs \<Rightarrow> error + fs" where
  "os_Remove env p d =
     (case os_fault env (SysRemove p) of
        Some err \<Rightarrow> Inl err
      | None \<Rightarrow>
          if map_of d p = None then Inl ''no such file or directory''
          else if \<exists>(q, n) \<in> set d. strict_prefix p q then Inl ''directory not empty''
          else Inr (filter (\<lambda>(q, n). q \<noteq> p) d))"

definition os_Create :: "env \<Rightarrow> path \<Rightarrow> fs \<Rightarrow> error + fs" where
  "os_Create env p d =
     (case os_fault env (SysCreate p) of
        Some err \<Rightarrow> Inl err
      | None \<Rightarrow> Inr ((p, File Blob) # filter (\<lambda>(q, n). q \<noteq> p) d))"

subsection \<open>The peer store and the peer list (Raft library)\<close>

text \<open>
  The Raft library is a package of its own; its peer store is modelled by its contract.
  \<^verbatim>\<open>JSONPeers\<close> keeps the peer list in \<^verbatim>\<open>peers.json\<close> under the directory it was made
  for: \<^verbatim>\<open>Peers()\<close> reads the file (no file is the empty list, a file that is no JSON
  array is an error) and \<^verbatim>\<open>SetPeers\<close> replaces it. \<^verbatim>\<open>AddUniquePeer\<close> appends an
  address to a list unless the list holds it.
\<close>

definition JSONPeers_Peers :: "env \<Rightarrow> path \<Rightarrow> fs \<Rightarrow> error + string list" where
  "JSONPeers_Peers env dir d =
     (case os_fault env (SysReadFile (filepath_Join dir ''peers.json'')) of
        Some err \<Rightarrow> Inl err
      | None \<Rightarrow>
          (case map_of d (filepath_Join dir ''peers.json'') of
             None \<Rightarrow> Inr []
           | Some (File (PeersJSON ps)) \<Rightarrow> Inr ps
           | Some (File Blob) \<Rightarrow> Inl ''invalid character''
           | Some (Dir perm) \<Rightarrow> Inl ''is a directory''))"

definition JSONPeers_SetPeers :: "env \<Rightarrow> path \<Rightarrow> string list \<Rightarrow> fs \<Rightarrow> error option \<times> fs" where
  "JSONPeers_SetPeers env dir ps d =
     (case os_fault env (SysWriteFile (filepath_Join dir ''peers.json'')) of
        Some err \<Rightarrow> (Some err, d)
      | None \<Rightarrow>
          (case map_of d (filepath_Join dir ''peers.json'') of
             Some (Dir perm) \<Rightarrow> (Some ''is a directory'', d)
           | _ \<Rightarrow>
             if dir \<noteq> [] \<and> map_of d dir = None then (Some ''no such file or directory'', d)
             else (None, (filepath_Join dir ''peers.json'', File (PeersJSON ps))
                           # filter (\<lambda>(q, n). q \<noteq> filepath_Join dir ''peers.json'') d)))"

definition AddUniquePeer :: "string list \<Rightarrow> string \<Rightarrow> string list" where
  "AddUniquePeer peers peer = (if peer \<in> set peers then peers else peers @ [peer])"

subsection \<open>\<^verbatim>\<open>main\<close>, lines 310 to 360: flags, the data directory, the required flags\<close>

text \<open>Lines 321 to 324: the version is logged; with \<^verbatim>\<open>-version\<close> that is all.\<close>

definition main_version :: "state \<Rightarrow> unit result" where
  "main_version s =
     (let s1 = log_Printf ''RobustIRC %s'' s
      in if version (flag s1) then Exit 0 s1 else Return () s1)"

text \<open>Lines 326 to 334: the sentinel file \<^verbatim>\<open>deletestate\<close>.\<close>

definition main_deletestate :: "env \<Rightarrow> state \<Rightarrow> unit result" where
  "main_deletestate env s =
     (case os_Stat (disk s) (filepath_Join (raftDir (flag s)) ''deletestate'') of
        Inl err \<Rightarrow> Return () s
      | Inr info \<Rightarrow>
          (case os_RemoveAll env (raftDir (flag s)) (disk s) of
             Inl err \<Rightarrow> log_Fatal err s
           | Inr d1 \<Rightarrow>
               (let s1 = emit (Sys (SysRemoveAll (raftDir (flag s)))) (s\<lparr>disk := d1\<rparr>)
                in case os_Mkdir env (raftDir (flag s1)) 448 (disk s1) of
                     Inl err \<Rightarrow> log_Fatal err s1
                   | Inr d2 \<Rightarrow>
                       Return () (log_Printf ''Deleted %q because %q existed''
                         (emit (Sys (SysMkdir (raftDir (flag s1)))) (s1\<lparr>disk := d2\<rparr>))))))"

text \<open>Lines 336 to 338: the old output stream databases (package \<^verbatim>\<open>outputstream\<close>).\<close>

definition main_DeleteOldDatabases :: "env \<Rightarrow> state \<Rightarrow> unit result" where
  "main_DeleteOldDatabases env s =
     (case outputstream_DeleteOldDatabases env (raftDir (flag s)) (disk s) of
        Inl err \<Rightarrow> log_Fatal (''Could not delete old outputstream databases: '' @ err) s
      | Inr d1 \<Rightarrow> Return () (s\<lparr>disk := d1\<rparr>))"

text \<open>Lines 228 to 246: \<^verbatim>\<open>deleteOldCompactionDatabases\<close>; the loop over the names first.\<close>

fun removeCompactionDatabases :: "env \<Rightarrow> path \<Rightarrow> string list \<Rightarrow> state \<Rightarrow> error option \<times> state" where
  "removeCompactionDatabases env tmpdir [] s = (None, s)"
| "removeCompactionDatabases env tmpdir (name # names) s =
     (if prefix ''permanent-compaction.sqlite3'' name
      then (case os_Remove env (filepath_Join tmpdir name) (disk s) of
              Inl err \<Rightarrow> (Some err, s)
            | Inr d1 \<Rightarrow>
                removeCompactionDatabases env tmpdir names
                  (emit (Sys (SysRemove (filepath_Join tmpdir name))) (s\<lparr>disk := d1\<rparr>)))
      else removeCompactionDatabases env tmpdir names s)"

definition deleteOldCompactionDatabases :: "env \<Rightarrow> path \<Rightarrow> state \<Rightarrow> error option \<times> state" where
  "deleteOldCompactionDatabases env tmpdir s =
     (case os_Open env (disk s) tmpdir of
        Some err \<Rightarrow> (Some err, s)
      | None \<Rightarrow>
          (case os_Readdirnames env (disk s) tmpdir of
             Inl err \<Rightarrow> (Some err, s)
           | Inr names \<Rightarrow> removeCompactionDatabases env tmpdir names s))"

text \<open>Lines 340 to 344: its error is logged and ignored.\<close>

definition main_deleteOldCompactionDatabases :: "env \<Rightarrow> state \<Rightarrow> unit result" where
  "main_deleteOldCompactionDatabases env s =
     (case deleteOldCompactionDatabases env (raftDir (flag s)) s of
        (Some err, s1) \<Rightarrow>
          Return () (log_Printf ''Initializing RobustIRC''
            (log_Printf (''Could not delete old compaction databases: '' @ err @ '' (ignoring)'') s1))
      | (None, s1) \<Rightarrow> Return () (log_Printf ''Initializing RobustIRC'' s1))"

text \<open>Lines 346 to 351: the network password, from the flag or else from the environment.\<close>

definition main_networkPassword :: "env \<Rightarrow> state \<Rightarrow> unit result" where
  "main_networkPassword env s =
     (let s1 = (if networkPassword (flag s) = ''''
                then s\<lparr>flag := (flag s)\<lparr>networkPassword := getenv env ''ROBUSTIRC_NETWORK_PASSWORD''\<rparr>\<rparr>
                else s)
      in if networkPassword (flag s1) = ''''
         then log_Fatal ''-network_password not set. You MUST protect your network.'' s1
         else Return () s1)"

text \<open>Lines 353 to 355.\<close>

definition main_network :: "state \<Rightarrow> unit result" where
  "main_network s =
     (if network (flag s) = '''' then log_Fatal ''-network_name not set, but required.'' s
      else Return () s)"

text \<open>Lines 357 to 360.\<close>

definition main_peerAddr :: "state \<Rightarrow> unit result" where
  "main_peerAddr s =
     (if peerAddr (flag s) = ''''
      then Return () ((log_Printf ''-peer_addr not set, initializing to %q.'' s)
                        \<lparr>flag := (flag s)\<lparr>peerAddr := listen (flag s)\<rparr>\<rparr>)
      else Return () s)"

subsection \<open>\<^verbatim>\<open>main\<close>, lines 362 to 392: the IRC server, the transport, the peer store\<close>

text \<open>
  A constructor whose error \<^verbatim>\<open>main\<close> checks (and passes to \<^verbatim>\<open>log.Fatal\<close>), and one
  that returns no error. What a constructor does to the disk is the environment's.
\<close>

definition init :: "env \<Rightarrow> component \<Rightarrow> state \<Rightarrow> unit result" where
  "init env c s =
     (case construct env c (disk s) of
        Inl err \<Rightarrow> log_Fatal err s
      | Inr d1 \<Rightarrow> Return () (emit (Init c) (s\<lparr>disk := d1\<rparr>)))"

definition init_noerr :: "env \<Rightarrow> component \<Rightarrow> state \<Rightarrow> unit result" where
  "init_noerr env c s = Return () (emit (Init c) (s\<lparr>disk := construct_effect env c (disk s)\<rparr>))"

text \<open>Lines 362 to 371.\<close>

definition main_ircServer :: "env \<Rightarrow> state \<Rightarrow> unit result" where
  "main_ircServer env s =
     andThen (init_noerr env (NewIRCServer (raftDir (flag s)) (network (flag s)) (time_Now env)) s) (\<lambda>u s.
     andThen (init_noerr env (NewHTTPTransport (peerAddr (flag s)) (networkPassword (flag s))) s) (\<lambda>u s.
     init_noerr env (NewJSONPeers (raftDir (flag s))) s))"

text \<open>Lines 373 to 392: a node started with neither \<^verbatim>\<open>-join\<close> nor \<^verbatim>\<open>-singlenode\<close>.\<close>

definition main_checkPeers :: "env \<Rightarrow> state \<Rightarrow> unit result" where
  "main_checkPeers env s =
     (if join (flag s) = '''' \<and> \<not> singleNode (flag s)
      then (case JSONPeers_Peers env (raftDir (flag s)) (disk s) of
              Inl err \<Rightarrow> log_Fatal err s
            | Inr peers \<Rightarrow>
                if length peers = 0
                then (if \<not> DisableTimesafeguard env
                      then log_Fatal ''No peers known and -join not specified. Joining the network is not safe because timesafeguard cannot be called.'' s
                      else Return () s)
                else
                  andThen
                    (if length peers = 1 \<and> peers ! 0 = peerAddr (flag s)
                     then log_Fatal ''Only known peer is myself (%q), implying this node was removed from the network. Please kill the process and remove the data.''
                            (emit (Sleep (10 * Second)) s)
                     else Return () s)
                    (\<lambda>u s1.
                       (let r = timesafeguard_SynchronizedWithNetwork env
                                  (peerAddr (flag s1)) peers (networkPassword (flag s1));
                            s2 = emit (SynchronizedWithNetwork
                                         (peerAddr (flag s1)) peers (networkPassword (flag s1)) r) s1
                        in case r of Some err \<Rightarrow> log_Fatal err s2 | None \<Rightarrow> Return () s2)))
      else Return () s)"

subsection \<open>\<^verbatim>\<open>main\<close>, lines 394 to 518: Raft, the stores, the HTTP server\<close>

text \<open>Lines 396 to 401 and 417 to 427: the fields \<^verbatim>\<open>main\<close> sets in the Raft configuration.\<close>

definition main_config :: "env \<Rightarrow> state \<Rightarrow> raft_config" where
  "main_config env s =
     \<lparr>EnableSingleNode = singleNode (flag s),
      StartAsLeader = singleNode (flag s),
      SnapshotInterval = 300 * Second,
      MaxAppendEntries = 1024,
      LeaderLeaseTimeout = timesafeguard_ElectionTimeout env,
      HeartbeatTimeout = timesafeguard_ElectionTimeout env,
      ElectionTimeout = timesafeguard_ElectionTimeout env\<rparr>"

text \<open>Lines 403 to 407: the snapshot store.\<close>

definition main_snapshots :: "env \<Rightarrow> state \<Rightarrow> unit result" where
  "main_snapshots env s = init env (NewFileSnapshotStoreWithLogger (raftDir (flag s)) 5) s"

text \<open>Lines 431 to 459: the metrics sink, the two log stores, the log cache, the Raft node.\<close>

definition bootstrapping :: "state \<Rightarrow> bool" where
  "bootstrapping s = (singleNode (flag s) \<or> join (flag s) \<noteq> '''')"

definition main_raft :: "env \<Rightarrow> state \<Rightarrow> unit result" where
  "main_raft env s =
     andThen (init env NewPrometheusSink s) (\<lambda>u s.
     andThen (init env (NewLevelDBStore (filepath_Join (raftDir (flag s)) ''raftlog'') (bootstrapping s)) s) (\<lambda>u s.
     andThen (init env (NewLevelDBStore (filepath_Join (raftDir (flag s)) ''irclog'') (bootstrapping s)) s) (\<lambda>u s.
     andThen (init env (NewLogCache (MaxAppendEntries (main_config env s))) s) (\<lambda>u s.
     init env (NewRaft (main_config env s)) s))))"

text \<open>Lines 461 to 473: the canary dump ends the process. The profile's path is kept as one name.\<close>

definition main_canary :: "env \<Rightarrow> state \<Rightarrow> unit result" where
  "main_canary env s =
     (if dumpCanaryState (flag s) \<noteq> ''''
      then (let s1 = emit (Canary (dumpCanaryState (flag s))) s
            in if dumpHeapProfile (flag s1) \<noteq> ''''
               then (case os_Create env [dumpHeapProfile (flag s1)] (disk s1) of
                       Inl err \<Rightarrow> log_Fatal err s1
                     | Inr d1 \<Rightarrow>
                         Exit 0 (emit WriteHeapProfile
                           (emit (Sys (SysCreate [dumpHeapProfile (flag s1)])) (s1\<lparr>disk := d1\<rparr>))))
               else Exit 0 s1)
      else Return () s)"

text \<open>Lines 482 to 518: the HTTP API, the TLS listener, \<^verbatim>\<open>go srv.Serve\<close>.\<close>

definition main_serve :: "env \<Rightarrow> state \<Rightarrow> unit result" where
  "main_serve env s =
     andThen (init_noerr env (NewHTTP (network (flag s)) (networkPassword (flag s))
                                 (raftDir (flag s)) (peerAddr (flag s))) s) (\<lambda>u s.
     andThen (init env ConfigureServer s) (\<lambda>u s.
     andThen (init env (NewKeypairReloader (tlsCertPath (flag s)) (tlsKeyPath (flag s))) s) (\<lambda>u s.
     andThen (init env (Listen (listen (flag s))) s) (\<lambda>u s.
     Return () (log_Printf ''RobustIRC listening on %q. For status, see %s'' (emit Serve s))))))"

text \<open>Lines 310 to 518 in sequence.\<close>

definition main_init :: "env \<Rightarrow> state \<Rightarrow> unit result" where
  "main_init env s =
     andThen (main_version s) (\<lambda>u s.
     andThen (main_deletestate env s) (\<lambda>u s.
     andThen (main_DeleteOldDatabases env s) (\<lambda>u s.
     andThen (main_deleteOldCompactionDatabases env s) (\<lambda>u s.
     andThen (main_networkPassword env s) (\<lambda>u s.
     andThen (main_network s) (\<lambda>u s.
     andThen (main_peerAddr s) (\<lambda>u s.
     andThen (main_ircServer env s) (\<lambda>u s.
     andThen (main_checkPeers env s) (\<lambda>u s.
     andThen (main_snapshots env s) (\<lambda>u s.
     andThen (main_raft env s) (\<lambda>u s.
     andThen (main_canary env s) (\<lambda>u s.
     main_serve env s))))))))))))"

subsection \<open>\<^verbatim>\<open>joinMaster\<close>, lines 182 to 225, and the join in \<^verbatim>\<open>main\<close>, lines 520 to 531\<close>

text \<open>
  The function calls itself on a redirect, and nothing bounds the redirects: a run that
  never returns is the value \<open>None\<close>. The answer to a request may depend on how many
  requests were sent before it. The error of \<^verbatim>\<open>SetPeers\<close> is dropped, as in the source.
\<close>

partial_function (option) joinMaster :: "env \<Rightarrow> string \<Rightarrow> state \<Rightarrow> string list result option" where
  [code]: "joinMaster env addr s =
     (case json_Marshal env (peerAddr (flag s)) of
        Inl err \<Rightarrow> Some (log_Fatal (''Could not marshal join request:'' @ err) s)
      | Inr buf \<Rightarrow>
          (case http_NewRequest env (''https://'' @ addr @ ''/join'') of
             Some err \<Rightarrow> Some (log_Fatal err s)
           | None \<Rightarrow>
               (case client_Do env (requests s) addr buf of
                  DoError err \<Rightarrow>
                    Some (log_Fatal (''Could not send join request:'' @ err)
                            (emit (JoinRequest addr) (s\<lparr>requests := requests s + 1\<rparr>)))
                | Response StatusCode loc body \<Rightarrow>
                    if StatusCode > 399
                    then Some (log_Fatal (''Join request failed:'' @ body)
                                 (emit (JoinRequest addr) (s\<lparr>requests := requests s + 1\<rparr>)))
                    else if StatusCode > 299
                    then (if loc = ''''
                          then Some (log_Fatal ''Redirect has no Location header''
                                       (emit (JoinRequest addr) (s\<lparr>requests := requests s + 1\<rparr>)))
                          else (case url_Parse env loc of
                                  Inl err \<Rightarrow>
                                    Some (log_Fatal (''Could not parse redirection %q: '' @ err)
                                            (emit (JoinRequest addr) (s\<lparr>requests := requests s + 1\<rparr>)))
                                | Inr Host \<Rightarrow>
                                    joinMaster env Host
                                      (emit (JoinRequest addr) (s\<lparr>requests := requests s + 1\<rparr>))))
                    else
                      (let s1 = log_Printf ''Adding master %q as peer''
                                  (emit (JoinRequest addr) (s\<lparr>requests := requests s + 1\<rparr>))
                       in case JSONPeers_Peers env (raftDir (flag s1)) (disk s1) of
                            Inl err \<Rightarrow> Some (log_Fatal (''Could not read peers:'' @ err) s1)
                          | Inr p \<Rightarrow>
                              (case JSONPeers_SetPeers env (raftDir (flag s1))
                                      (AddUniquePeer p addr) (disk s1) of
                                 (err, d1) \<Rightarrow>
                                   Some (Return (AddUniquePeer p addr)
                                     (emit (SetPeers (AddUniquePeer p addr) err) (s1\<lparr>disk := d1\<rparr>))))))))"

text \<open>Lines 520 to 531 (\<^verbatim>\<open>p\<close> is nil without \<^verbatim>\<open>-join\<close>), then lines 533 and 534: the two timers.\<close>

definition main_join :: "env \<Rightarrow> state \<Rightarrow> string list result option" where
  "main_join env s =
     (if join (flag s) \<noteq> ''''
      then (let r = timesafeguard_SynchronizedWithMasterAndNetwork env
                      (peerAddr (flag s)) (join (flag s)) (networkPassword (flag s));
                s1 = emit (SynchronizedWithMasterAndNetwork
                             (peerAddr (flag s)) (join (flag s)) (networkPassword (flag s)) r) s
            in case r of
                 Some err \<Rightarrow> Some (log_Fatal err s1)
               | None \<Rightarrow> joinMaster env (join (flag s1)) s1)
      else Some (Return [] s))"

definition main_SetPeers :: "string list \<Rightarrow> state \<Rightarrow> unit result" where
  "main_SetPeers p s = (if length p > 0 then Return () (emit (NodeSetPeers p) s) else Return () s)"

definition main_timers :: "state \<Rightarrow> unit result" where
  "main_timers s = Return () (emit (Tick (1 * Second)) (emit (After expireSessionsInterval) s))"

definition main_startup :: "env \<Rightarrow> state \<Rightarrow> unit result option" where
  "main_startup env s =
     (case main_init env s of
        Exit c s1 \<Rightarrow> Some (Exit c s1)
      | Return u s1 \<Rightarrow>
          (case main_join env s1 of
             None \<Rightarrow> None
           | Some r \<Rightarrow> Some (andThen r (\<lambda>p s2. andThen (main_SetPeers p s2) (\<lambda>u s3. main_timers s3)))))"

subsection \<open>\<^verbatim>\<open>main\<close>, lines 535 to 558: the loop\<close>

text \<open>
  Modelled from the spec: the sessions of the IRC server (package \<^verbatim>\<open>ircserver\<close>, which is
  not among the sources), as far as the expiry reads them: the session handle, the time of
  the last activity and the session's TTL.
\<close>

record session =
  session_id :: "64 word"
  last_activity :: int
  ttl :: int

text \<open>
  Modelled from the spec: a session is expired when its last activity is older than its TTL.
\<close>

definition expired :: "int \<Rightarrow> session \<Rightarrow> bool" where
  "expired now x = (ttl x < now - last_activity x)"

text \<open>
  Modelled from the spec: \<^verbatim>\<open>ircServer.ExpireSessions()\<close> is in package \<^verbatim>\<open>ircserver\<close>,
  which is not among the sources. By the specification it enumerates the sessions whose
  last activity is older than the session's TTL and gives a DeleteSession command for each.
\<close>

definition ExpireSessions :: "int \<Rightarrow> session list \<Rightarrow> message list" where
  "ExpireSessions now xs =
     map (\<lambda>x. \<lparr>msg_session = session_id x, msg_type = DeleteSession\<rparr>) (filter (expired now) xs)"

text \<open>
  One wake-up of the \<^verbatim>\<open>select\<close>: the channel that fired, and what the calls of the
  body see at that moment: \<^verbatim>\<open>node.State()\<close>, the IRC server's clock and sessions, and
  the error (if any) with which \<^verbatim>\<open>api.ApplyMessageWait\<close> answers each message.
\<close>

datatype wakeup = secondTicker | expireSessionsTimer

record tick =
  chan :: wakeup
  node_State :: raft_state
  clock :: int
  sessions :: "session list"
  apply_err :: "message \<Rightarrow> error option"

text \<open>Lines 552 to 556.\<close>

fun applyAll :: "(message \<Rightarrow> error option) \<Rightarrow> message list \<Rightarrow> state \<Rightarrow> state" where
  "applyAll res [] s = s"
| "applyAll res (msg # msgs) s =
     applyAll res msgs
       (case res msg of
          Some err \<Rightarrow> log_Printf (''Apply(): '' @ err) (emit (ApplyMessageWait msg (10 * Second)) s)
        | None \<Rightarrow> emit (ApplyMessageWait msg (10 * Second)) s)"

text \<open>Lines 536 to 557: one turn of the loop.\<close>

definition loop_step :: "tick \<Rightarrow> state \<Rightarrow> unit result" where
  "loop_step t s =
     (case chan t of
        secondTicker \<Rightarrow>
          if node_State t = Shutdown
          then log_Fatal ''Node removed from the network (in raft state shutdown), terminating.'' s
          else Return () s
      | expireSessionsTimer \<Rightarrow>
          (let s1 = emit (After expireSessionsInterval) s
           in if node_State t \<noteq> Leader then Return () s1
              else Return () (applyAll (apply_err t) (ExpireSessions (clock t) (sessions t)) s1)))"

fun main_loop :: "tick list \<Rightarrow> state \<Rightarrow> unit result" where
  "main_loop [] s = Return () s"
| "main_loop (t # ts) s = andThen (loop_step t s) (\<lambda>u s1. main_loop ts s1)"

text \<open>The whole program, on the flags, the disk it finds and the wake-ups of its loop.\<close>

definition start :: "flags \<Rightarrow> fs \<Rightarrow> state" where
  "start fl d = \<lparr>flag = fl, disk = d, trace = [], requests = 0\<rparr>"

definition main :: "env \<Rightarrow> flags \<Rightarrow> fs \<Rightarrow> tick list \<Rightarrow> unit result option" where
  "main env fl d ticks =
     (case main_startup env (start fl d) of
        None \<Rightarrow> None
      | Some r \<Rightarrow> Some (andThen r (\<lambda>u s. main_loop ticks s)))"

subsection \<open>Notions for stating the properties\<close>

text \<open>
  \<open>news P s r\<close>: the result \<open>r\<close> of a step started in \<open>s\<close> kept the trace of \<open>s\<close> and
  added only events that satisfy \<open>P\<close>.
\<close>

definition news :: "(event \<Rightarrow> bool) \<Rightarrow> state \<Rightarrow> 'a result \<Rightarrow> bool" where
  "news P s r = (\<exists>es. trace (final r) = trace s @ es \<and> list_all P es)"

text \<open>Log lines and calls on the disk: what happens before anything is constructed.\<close>

fun quiet :: "event \<Rightarrow> bool" where
  "quiet (Log m) = True"
| "quiet (Sys c) = True"
| "quiet e = False"

text \<open>An environment in which nothing fails and nothing is set, and the flags' default values
  (lines 47 to 87), for running the model on concrete inputs.\<close>

definition quiet_env :: env where
  "quiet_env =
     \<lparr>getenv = (\<lambda>name. ''''),
      time_Now = 1600000000 * Second,
      os_fault = (\<lambda>c. None),
      DisableTimesafeguard = False,
      timesafeguard_ElectionTimeout = 2 * Second,
      timesafeguard_SynchronizedWithNetwork = (\<lambda>a ps pw. None),
      timesafeguard_SynchronizedWithMasterAndNetwork = (\<lambda>a m pw. None),
      outputstream_DeleteOldDatabases = (\<lambda>dir d. Inr d),
      construct = (\<lambda>c d. Inr d),
      construct_effect = (\<lambda>c d. d),
      json_Marshal = (\<lambda>a. Inr a),
      http_NewRequest = (\<lambda>u. None),
      client_Do = (\<lambda>k addr buf. Response 200 '''' ''''),
      url_Parse = (\<lambda>loc. Inr loc)\<rparr>"

definition default_flags :: flags where
  "default_flags =
     \<lparr>raftDir = [''var'', ''lib'', ''robustirc''],
      listen = '':443'',
      version = False,
      singleNode = False,
      join = '''',
      dumpCanaryState = '''',
      dumpHeapProfile = '''',
      canaryCompactionStart = 0,
      network = '''',
      peerAddr = '''',
      tlsCertPath = '''',
      tlsKeyPath = '''',
      networkPassword = ''''\<rparr>"

text \<open>The events of \<^verbatim>\<open>main\<close> up to the listener, the peers check apart.\<close>

fun building :: "event \<Rightarrow> bool" where
  "building (Log m) = True"
| "building (Sys c) = True"
| "building (Init c) = True"
| "building Serve = True"
| "building (Canary f) = True"
| "building WriteHeapProfile = True"
| "building e = False"

text \<open>The error a time safeguard check returned; the events of a join.\<close>

fun check_error :: "event \<Rightarrow> error option" where
  "check_error (SynchronizedWithNetwork a ps pw r) = r"
| "check_error (SynchronizedWithMasterAndNetwork a m pw r) = r"
| "check_error e = None"

fun is_join :: "event \<Rightarrow> bool" where
  "is_join (JoinRequest a) = True"
| "is_join (SetPeers p err) = True"
| "is_join (NodeSetPeers p) = True"
| "is_join e = False"

definition calm :: "event \<Rightarrow> bool" where
  "calm e = (check_error e = None \<and> \<not> is_join e)"

text \<open>
  \<open>halted s r\<close>: started in \<open>s\<close>, the step ended the process with exit code 1 right
  after a failed time safeguard check: the check's error is the last thing logged, and
  before the check there was no failed check and no event of a join.
\<close>

definition halted :: "state \<Rightarrow> 'a result \<Rightarrow> bool" where
  "halted s r =
     (\<exists>s' pre chk err. r = Exit 1 s' \<and> trace s' = trace s @ pre @ [chk, Log err] \<and>
        check_error chk = Some err \<and> list_all calm pre)"

definition sound :: "state \<Rightarrow> 'a result \<Rightarrow> bool" where
  "sound s r = (news calm s r \<or> halted s r)"

text \<open>A data directory that holds the sentinel file, a peer list and an old compaction
  database; flags that name the network, the password and the node's address.\<close>

definition example_disk :: fs where
  "example_disk =
     [([''var''], Dir 493), ([''var'', ''lib''], Dir 493), ([''var'', ''lib'', ''robustirc''], Dir 448),
      ([''var'', ''lib'', ''robustirc'', ''deletestate''], File Blob),
      ([''var'', ''lib'', ''robustirc'', ''peers.json''], File (PeersJSON [''a.example:60667''])),
      ([''var'', ''lib'', ''robustirc'', ''permanent-compaction.sqlite3-wal''], File Blob)]"

definition example_flags :: flags where
  "example_flags = default_flags\<lparr>network := ''robustirc.net'', networkPassword := ''hunter2'',
     peerAddr := ''b.example:60667''\<rparr>"

text \<open>The data directory of a node that knows one peer.\<close>

definition joined_disk :: fs where
  "joined_disk =
     [([''var''], Dir 493), ([''var'', ''lib''], Dir 493), ([''var'', ''lib'', ''robustirc''], Dir 448),
      ([''var'', ''lib'', ''robustirc'', ''peers.json''], File (PeersJSON [''a.example:60667'']))]"

text \<open>
  \<open>joined env s p s' master stored hosts err\<close>: what a call of \<^verbatim>\<open>joinMaster\<close> that
  started in \<open>s\<close> and returned \<open>p\<close> in \<open>s'\<close> has done: redirected by \<open>hosts\<close> in turn, it
  reached \<open>master\<close>, which answered with a status of at most 299; it read the stored peer
  list \<open>stored\<close>, added the master to it with \<^verbatim>\<open>AddUniquePeer\<close> and passed the result
  to \<^verbatim>\<open>SetPeers\<close>, which returned \<open>err\<close> and left the disk of \<open>s'\<close>.
\<close>

definition joined ::
  "env \<Rightarrow> state \<Rightarrow> string list \<Rightarrow> state \<Rightarrow> string \<Rightarrow> string list \<Rightarrow> string list \<Rightarrow> error option \<Rightarrow> bool" where
  "joined env s p s' master stored hosts err =
     (trace s' = trace s @ map JoinRequest hosts @
        [JoinRequest master, Log ''Adding master %q as peer'', SetPeers p err] \<and>
      flag s' = flag s \<and>
      requests s' = requests s + length hosts + 1 \<and>
      (\<exists>buf code loc body.
         json_Marshal env (peerAddr (flag s)) = Inr buf \<and>
         client_Do env (requests s + length hosts) master buf = Response code loc body \<and>
         code \<le> 299) \<and>
      JSONPeers_Peers env (raftDir (flag s)) (disk s) = Inr stored \<and>
      p = AddUniquePeer stored master \<and>
      JSONPeers_SetPeers env (raftDir (flag s)) p (disk s) = (err, disk s'))"

text \<open>A network in which the node asked first is not the leader and redirects to it.\<close>

definition redirecting_env :: env where
  "redirecting_env =
     quiet_env\<lparr>client_Do := (\<lambda>k addr buf.
                   if addr = ''a.example:60667''
                   then Response 307 ''https://leader.example:60667/join'' ''''
                   else Response 200 '''' ''''),
               url_Parse := (\<lambda>loc.
                   if loc = ''https://leader.example:60667/join'' then Inr ''leader.example:60667''
                   else Inl ''invalid URL'')\<rparr>"

text \<open>The data directory of a node whose \<^verbatim>\<open>peers.json\<close> names one peer twice; a machine on
  which \<^verbatim>\<open>peers.json\<close> cannot be written.\<close>

definition repeated_disk :: fs where
  "repeated_disk =
     [([''var''], Dir 493), ([''var'', ''lib''], Dir 493), ([''var'', ''lib'', ''robustirc''], Dir 448),
      ([''var'', ''lib'', ''robustirc'', ''peers.json''],
         File (PeersJSON [''a.example:60667'', ''a.example:60667'']))]"

definition readonly_env :: env where
  "readonly_env =
     quiet_env\<lparr>os_fault := (\<lambda>c.
                   if c = SysWriteFile [''var'', ''lib'', ''robustirc'', ''peers.json'']
                   then Some ''read-only file system'' else None)\<rparr>"

text \<open>The messages passed to \<^verbatim>\<open>api.ApplyMessageWait\<close> in a trace, each with its wait.\<close>

fun proposals :: "event list \<Rightarrow> (message \<times> int) list" where
  "proposals [] = []"
| "proposals (ApplyMessageWait m w # es) = (m, w) # proposals es"
| "proposals (e # es) = proposals es"

text \<open>A wake-up of the one second ticker that sees the node shut down.\<close>

definition sees_shutdown :: "tick \<Rightarrow> bool" where
  "sees_shutdown t = (chan t = secondTicker \<and> node_State t = Shutdown)"

text \<open>
  Modelled from the spec: the file snapshot store is the Raft library's and is not among
  the sources. By the specification, \<^verbatim>\<open>snapshots/\<close> under the data directory holds up to
  5 Raft snapshots: the store made by \<^verbatim>\<open>NewFileSnapshotStoreWithLogger(base, retain, logger)\<close>
  keeps its snapshots (newest first here) in \<^verbatim>\<open>snapshots\<close> under \<^verbatim>\<open>base\<close>, and when a
  snapshot is finished it reaps all but the newest \<^verbatim>\<open>retain\<close>.
\<close>

record FileSnapshotStore =
  store_path :: path
  retain :: nat

text \<open>
  Modelled from the spec: the store that a call of \<^verbatim>\<open>NewFileSnapshotStoreWithLogger\<close> makes.
\<close>

fun snapshot_store :: "component \<Rightarrow> FileSnapshotStore option" where
  "snapshot_store (NewFileSnapshotStoreWithLogger base n) =
     Some \<lparr>store_path = filepath_Join base ''snapshots'', retain = n\<rparr>"
| "snapshot_store c = None"

text \<open>
  Modelled from the spec: reaping keeps the newest \<^verbatim>\<open>retain\<close> snapshots; finishing a
  snapshot adds it and reaps.
\<close>

definition ReapSnapshots :: "FileSnapshotStore \<Rightarrow> string list \<Rightarrow> string list" where
  "ReapSnapshots st snaps = take (retain st) snaps"

definition finish_snapshot :: "FileSnapshotStore \<Rightarrow> string \<Rightarrow> string list \<Rightarrow> string list" where
  "finish_snapshot st name snaps = ReapSnapshots st (name # snaps)"

text \<open>
  The events of one turn of the loop as the expiry is described: a wake-up of the ticker
  that goes on adds none; a wake-up of the expiry timer arms the timer again with 10
  seconds, and on a leader it then passes to \<^verbatim>\<open>api.ApplyMessageWait\<close>, with a wait of 10
  seconds, one DeleteSession message for every session whose last activity is older than
  its TTL (an error of the call adds a log line). To be compared with \<open>main_loop\<close>.
\<close>

definition expiry_message :: "session \<Rightarrow> message" where
  "expiry_message x = \<lparr>msg_session = session_id x, msg_type = DeleteSession\<rparr>"

definition described_turn :: "tick \<Rightarrow> event list" where
  "described_turn t =
     (case chan t of
        secondTicker \<Rightarrow> []
      | expireSessionsTimer \<Rightarrow>
          After 10000000000 #
          (if node_State t = Leader
           then concat (map (\<lambda>x. ApplyMessageWait (expiry_message x) 10000000000 #
                                (case apply_err t (expiry_message x) of
                                   Some err \<Rightarrow> [Log (''Apply(): '' @ err)]
                                 | None \<Rightarrow> []))
                          (filter (\<lambda>x. ttl x < clock t - last_activity x) (sessions t)))
           else []))"

text \<open>Wake-ups of the expiry timer on a follower and on a leader that has two sessions, one of
  them idle for longer than its TTL, and a wake-up of the ticker.\<close>

definition example_ticks :: "tick list" where
  "example_ticks =
     [\<lparr>chan = expireSessionsTimer, node_State = Follower, clock = 100,
       sessions = [\<lparr>session_id = 7, last_activity = 10, ttl = 60\<rparr>,
                   \<lparr>session_id = 8, last_activity = 90, ttl = 60\<rparr>],
       apply_err = (\<lambda>m. None)\<rparr>,
      \<lparr>chan = secondTicker, node_State = Leader, clock = 101, sessions = [], apply_err = (\<lambda>m. None)\<rparr>,
      \<lparr>chan = expireSessionsTimer, node_State = Leader, clock = 110,
       sessions = [\<lparr>session_id = 7, last_activity = 10, ttl = 60\<rparr>,
                   \<lparr>session_id = 8, last_activity = 90, ttl = 60\<rparr>],
       apply_err = (\<lambda>m. None)\<rparr>]"

section \<open>Properties\<close>

subsection \<open>Traces of the steps\<close>

lemma emit_simps [simp]:
  "trace (emit e s) = trace s @ [e]" "flag (emit e s) = flag s"
  "disk (emit e s) = disk s" "requests (emit e s) = requests s"
  by (simp_all add: emit_def)

lemma log_Printf_simps [simp]:
  "trace (log_Printf m s) = trace s @ [Log m]" "flag (log_Printf m s) = flag s"
  "disk (log_Printf m s) = disk s" "requests (log_Printf m s) = requests s"
  by (simp_all add: log_Printf_def)

lemma final_log_Fatal [simp]: "final (log_Fatal m s) = emit (Log m) s"
  by (simp add: log_Fatal_def)

lemma news_step: "news P s1 r \<Longrightarrow> trace s1 = trace s @ es \<Longrightarrow> list_all P es \<Longrightarrow> news P s r"
  by (auto simp: news_def)

lemma news_refl [simp]: "news P s (Return a s)" "news P s (Exit c s)"
  by (simp_all add: news_def)

lemma news_emit [simp]: "P e \<Longrightarrow> news P s (Return a (emit e s))"
  by (simp add: news_def emit_def)

lemma news_mono: "news P s r \<Longrightarrow> (\<And>e. P e \<Longrightarrow> Q e) \<Longrightarrow> news Q s r"
  by (auto simp: news_def list_all_iff)

lemma news_trans: "news P s r \<Longrightarrow> news P (final r) r' \<Longrightarrow> news P s r'"
  by (auto simp: news_def)

lemma news_andThen:
  assumes "news P s r" and "\<And>a s'. r = Return a s' \<Longrightarrow> news P s' (f a s')"
  shows "news P s (andThen r f)"
proof (cases r)
  case (Exit c s')
  with assms(1) show ?thesis by (simp add: andThen_def news_def)
next
  case (Return a s')
  from assms(2)[OF Return] assms(1) Return show ?thesis
    by (auto simp: andThen_def news_def)
qed

lemma main_version_quiet: "news quiet s (main_version s)"
  by (simp add: main_version_def log_Printf_def news_def emit_def Let_def)

lemma main_deletestate_quiet: "news quiet s (main_deletestate env s)"
  by (auto simp: main_deletestate_def log_Printf_def log_Fatal_def news_def emit_def Let_def split: sum.splits)

lemma main_DeleteOldDatabases_quiet: "news quiet s (main_DeleteOldDatabases env s)"
  by (auto simp: main_DeleteOldDatabases_def log_Printf_def log_Fatal_def news_def emit_def Let_def split: sum.splits)

lemma removeCompactionDatabases_quiet:
  "\<exists>es. trace (snd (removeCompactionDatabases env dir names s)) = trace s @ es \<and> list_all quiet es"
proof (induction names arbitrary: s)
  case Nil
  show ?case by simp
next
  case (Cons name names)
  show ?case
  proof (cases "prefix ''permanent-compaction.sqlite3'' name")
    case False
    with Cons.IH[of s] show ?thesis by simp
  next
    case True
    show ?thesis
    proof (cases "os_Remove env (filepath_Join dir name) (disk s)")
      case (Inl err)
      with True show ?thesis by simp
    next
      case (Inr d1)
      from Cons.IH[of "emit (Sys (SysRemove (filepath_Join dir name))) (s\<lparr>disk := d1\<rparr>)"]
      obtain es where "trace (snd (removeCompactionDatabases env dir names
          (emit (Sys (SysRemove (filepath_Join dir name))) (s\<lparr>disk := d1\<rparr>)))) =
          trace s @ Sys (SysRemove (filepath_Join dir name)) # es" "list_all quiet es"
        by (auto simp: emit_def)
      with True Inr show ?thesis by simp
    qed
  qed
qed

lemma removeCompactionDatabases_flag:
  "flag (snd (removeCompactionDatabases env dir names s)) = flag s"
  by (induction names arbitrary: s) (auto simp: emit_def split: sum.splits)

lemma deleteOldCompactionDatabases_quiet:
  "\<exists>es. trace (snd (deleteOldCompactionDatabases env dir s)) = trace s @ es \<and> list_all quiet es"
  using removeCompactionDatabases_quiet
  by (auto simp: deleteOldCompactionDatabases_def split: option.splits sum.splits)

lemma deleteOldCompactionDatabases_flag:
  "flag (snd (deleteOldCompactionDatabases env dir s)) = flag s"
  by (auto simp: deleteOldCompactionDatabases_def removeCompactionDatabases_flag split: option.splits sum.splits)

lemma main_deleteOldCompactionDatabases_quiet: "news quiet s (main_deleteOldCompactionDatabases env s)"
proof -
  obtain err s1 where r: "deleteOldCompactionDatabases env (raftDir (flag s)) s = (err, s1)"
    by (cases "deleteOldCompactionDatabases env (raftDir (flag s)) s")
  from deleteOldCompactionDatabases_quiet[of env "raftDir (flag s)" s] r
  obtain es where "trace s1 = trace s @ es" "list_all quiet es" by auto
  with r show ?thesis
    by (cases err) (auto simp: main_deleteOldCompactionDatabases_def news_def log_Printf_def emit_def)
qed

lemma main_deleteOldCompactionDatabases_Return:
  "\<exists>s'. main_deleteOldCompactionDatabases env s = Return () s' \<and> flag s' = flag s"
proof -
  obtain err s1 where r: "deleteOldCompactionDatabases env (raftDir (flag s)) s = (err, s1)"
    by (cases "deleteOldCompactionDatabases env (raftDir (flag s)) s")
  from deleteOldCompactionDatabases_flag[of env "raftDir (flag s)" s] r have "flag s1 = flag s" by simp
  with r show ?thesis
    by (cases err) (auto simp: main_deleteOldCompactionDatabases_def log_Printf_def emit_def)
qed

lemma main_deletestate_cases:
  "(\<exists>s'. main_deletestate env s = Exit 1 s') \<or>
   (\<exists>s'. main_deletestate env s = Return () s' \<and> flag s' = flag s)"
  by (simp add: main_deletestate_def log_Printf_def log_Fatal_def emit_def Let_def split: sum.splits)

lemma main_DeleteOldDatabases_cases:
  "(\<exists>s'. main_DeleteOldDatabases env s = Exit 1 s') \<or>
   (\<exists>s'. main_DeleteOldDatabases env s = Return () s' \<and> flag s' = flag s)"
  by (simp add: main_DeleteOldDatabases_def log_Fatal_def split: sum.splits)

lemma andThen_simps [simp]:
  "andThen (Exit c s) f = Exit c s"
  "andThen (Return a s) f = f a s"
  by (simp_all add: andThen_def)

lemma news_True: "news P s r \<Longrightarrow> news (\<lambda>e. True) s r"
  by (auto simp: news_def list_all_iff)

lemma news_all: "news P s r \<Longrightarrow> list_all P (trace s) \<Longrightarrow> list_all P (trace (final r))"
  by (auto simp: news_def)

lemma main_networkPassword_quiet: "news quiet s (main_networkPassword env s)"
  by (simp add: main_networkPassword_def log_Fatal_def news_def emit_def Let_def)

lemma main_early_exits:
  assumes "\<not> version (flag s0)" "networkPassword (flag s0) = ''''"
    "getenv env ''ROBUSTIRC_NETWORK_PASSWORD'' = ''''" "list_all quiet (trace s0)"
  shows "\<exists>s'. main_init env s0 = Exit 1 s' \<and> list_all quiet (trace s')"
proof -
  define s1 where "s1 = log_Printf ''RobustIRC %s'' s0"
  have v: "main_version s0 = Return () s1" and f1: "flag s1 = flag s0" and q1: "list_all quiet (trace s1)"
    using assms by (simp_all add: main_version_def s1_def Let_def log_Printf_def emit_def)
  from main_deletestate_cases[of env s1] show ?thesis
  proof (elim disjE exE conjE)
    fix s' assume a: "main_deletestate env s1 = Exit 1 s'"
    from news_all[OF main_deletestate_quiet q1, of env] a have "list_all quiet (trace s')" by simp
    with v a show ?thesis by (simp add: main_init_def)
  next
    fix s2 assume b: "main_deletestate env s1 = Return () s2" and f2: "flag s2 = flag s1"
    from news_all[OF main_deletestate_quiet q1, of env] b have q2: "list_all quiet (trace s2)" by simp
    from main_DeleteOldDatabases_cases[of env s2] show ?thesis
    proof (elim disjE exE conjE)
      fix s' assume a: "main_DeleteOldDatabases env s2 = Exit 1 s'"
      from news_all[OF main_DeleteOldDatabases_quiet q2, of env] a have "list_all quiet (trace s')" by simp
      with v b a show ?thesis by (simp add: main_init_def)
    next
      fix s3 assume c: "main_DeleteOldDatabases env s2 = Return () s3" and f3: "flag s3 = flag s2"
      from news_all[OF main_DeleteOldDatabases_quiet q2, of env] c have q3: "list_all quiet (trace s3)" by simp
      from main_deleteOldCompactionDatabases_Return[of env s3]
      obtain s4 where d: "main_deleteOldCompactionDatabases env s3 = Return () s4" and f4: "flag s4 = flag s3"
        by blast
      from news_all[OF main_deleteOldCompactionDatabases_quiet q3, of env] d
      have q4: "list_all quiet (trace s4)" by simp
      have pw: "networkPassword (flag s4) = ''''" using f4 f3 f2 f1 assms(2) by simp
      from pw assms(3) obtain s' where e: "main_networkPassword env s4 = Exit 1 s'"
        by (simp add: main_networkPassword_def log_Fatal_def)
      from news_all[OF main_networkPassword_quiet q4, of env] e have "list_all quiet (trace s')" by simp
      with v b c d e show ?thesis by (simp add: main_init_def)
    qed
  qed
qed


lemma quiet_building: "quiet e \<Longrightarrow> building e"
  by (cases e) simp_all

lemma building_calm: "building e \<Longrightarrow> calm e"
  by (cases e) (simp_all add: calm_def)

lemma main_network_quiet: "news quiet s (main_network s)"
  by (simp add: main_network_def log_Fatal_def news_def emit_def)

lemma main_peerAddr_quiet: "news quiet s (main_peerAddr s)"
  by (simp add: main_peerAddr_def log_Printf_def news_def emit_def)

lemma init_building: "news building s (init env c s)"
  by (simp add: init_def log_Fatal_def news_def emit_def split: sum.splits)

lemma init_noerr_building: "news building s (init_noerr env c s)"
  by (simp add: init_noerr_def news_def emit_def)

lemma main_ircServer_building: "news building s (main_ircServer env s)"
  unfolding main_ircServer_def by (intro news_andThen init_noerr_building)

lemma main_snapshots_building: "news building s (main_snapshots env s)"
  unfolding main_snapshots_def by (rule init_building)

lemma main_raft_building: "news building s (main_raft env s)"
  unfolding main_raft_def by (intro news_andThen init_building)

lemma main_canary_building: "news building s (main_canary env s)"
  by (simp add: main_canary_def log_Fatal_def news_def emit_def Let_def split: sum.splits)

lemma main_serve_building: "news building s (main_serve env s)"
  unfolding main_serve_def
  by (intro news_andThen init_building init_noerr_building) (simp add: news_def log_Printf_def emit_def)

lemma main_checkPeers_extends: "news (\<lambda>e. True) s (main_checkPeers env s)"
  by (simp add: main_checkPeers_def log_Fatal_def news_def emit_def Let_def andThen_def
           split: sum.splits option.splits)

lemma main_SetPeers_extends: "news (\<lambda>e. check_error e = None) s (main_SetPeers p s)"
  by (simp add: main_SetPeers_def news_def emit_def)

lemma main_timers_extends: "news (\<lambda>e. check_error e = None) s (main_timers s)"
  by (simp add: main_timers_def news_def emit_def)

lemma applyAll_extends:
  "\<exists>es. trace (applyAll res msgs s) = trace s @ es \<and> list_all (\<lambda>e. check_error e = None) es"
proof (induction msgs arbitrary: s)
  case Nil
  show ?case by simp
next
  case (Cons msg msgs)
  show ?case
  proof (cases "res msg")
    case None
    from Cons.IH[of "emit (ApplyMessageWait msg (10 * Second)) s"] None show ?thesis
      by (auto simp: emit_def)
  next
    case (Some err)
    from Cons.IH[of "log_Printf (''Apply(): '' @ err) (emit (ApplyMessageWait msg (10 * Second)) s)"] Some
    show ?thesis by (auto simp: emit_def log_Printf_def)
  qed
qed

lemma loop_step_extends: "news (\<lambda>e. check_error e = None) s (loop_step t s)"
proof (cases "chan t")
  case secondTicker
  then show ?thesis by (simp add: loop_step_def log_Fatal_def news_def emit_def)
next
  case expireSessionsTimer
  from applyAll_extends[of "apply_err t" "ExpireSessions (clock t) (sessions t)"
         "emit (After expireSessionsInterval) s"]
  obtain es where "trace (applyAll (apply_err t) (ExpireSessions (clock t) (sessions t))
         (emit (After expireSessionsInterval) s)) = trace s @ After expireSessionsInterval # es"
       "list_all (\<lambda>e. check_error e = None) es"
    by (auto simp: emit_def)
  with expireSessionsTimer show ?thesis
    by (simp add: loop_step_def news_def emit_def Let_def)
qed

lemma main_loop_extends: "news (\<lambda>e. check_error e = None) s (main_loop ts s)"
proof (induction ts arbitrary: s)
  case Nil
  show ?case by simp
next
  case (Cons t ts)
  show ?case by (simp del: andThen_simps) (intro news_andThen loop_step_extends Cons.IH)
qed


text \<open>The definitions to unfold when the model is run on a concrete input.\<close>

lemmas model_defs =
  main_def main_startup_def main_init_def main_version_def main_deletestate_def
  main_DeleteOldDatabases_def main_deleteOldCompactionDatabases_def deleteOldCompactionDatabases_def
  main_networkPassword_def main_network_def main_peerAddr_def main_ircServer_def
  main_checkPeers_def main_snapshots_def main_raft_def main_config_def bootstrapping_def
  main_canary_def main_serve_def main_join_def main_SetPeers_def main_timers_def
  init_def init_noerr_def os_Stat_def os_RemoveAll_def os_Mkdir_def os_Open_def
  os_Readdirnames_def os_Remove_def os_Create_def JSONPeers_Peers_def JSONPeers_SetPeers_def
  AddUniquePeer_def filepath_Join_def start_def Let_def expireSessionsInterval_def Second_def
  log_Fatal_def log_Printf_def emit_def loop_step_def ExpireSessions_def expired_def
  quiet_env_def default_flags_def example_disk_def example_flags_def joined_disk_def redirecting_env_def example_ticks_def repeated_disk_def readonly_env_def

lemma joinMaster_extends:
  "joinMaster env addr s = Some r \<Longrightarrow> news (\<lambda>e. check_error e = None) s r"
proof (induction env addr s r rule: joinMaster.raw_induct[rotated 1, consumes 1])
  case (1 joinMaster' env addr s r)
  have step: "\<exists>es. trace (final r') = trace s @ es \<and> list_all (\<lambda>e. check_error e = None) es"
    if "joinMaster' env host (emit (JoinRequest addr) (s\<lparr>requests := Suc (requests s)\<rparr>)) = Some r'"
    for host r'
    using "1.IH"[OF that] by (auto simp: news_def)
  from "1.hyps" show ?case
    by (auto simp: news_def Let_def
             split: sum.splits option.splits http_result.splits if_splits prod.splits
             dest: step)
qed

lemma main_join_extends:
  "main_join env s = Some r \<Longrightarrow> news (\<lambda>e. True) s r"
proof (cases "join (flag s) = ''''")
  case True
  assume "main_join env s = Some r"
  with True show ?thesis by (auto simp: main_join_def)
next
  case False
  assume a: "main_join env s = Some r"
  let ?r = "timesafeguard_SynchronizedWithMasterAndNetwork env
              (peerAddr (flag s)) (join (flag s)) (networkPassword (flag s))"
  let ?s1 = "emit (SynchronizedWithMasterAndNetwork
              (peerAddr (flag s)) (join (flag s)) (networkPassword (flag s)) ?r) s"
  show ?thesis
  proof (cases ?r)
    case (Some err)
    with a False show ?thesis by (auto simp: main_join_def Let_def news_def)
  next
    case None
    with a False have "joinMaster env (join (flag s)) ?s1 = Some r"
      by (simp add: main_join_def Let_def)
    from news_True[OF joinMaster_extends[OF this]] show ?thesis
      by (rule news_step[where es = "[SynchronizedWithMasterAndNetwork
              (peerAddr (flag s)) (join (flag s)) (networkPassword (flag s)) ?r]"]) simp_all
  qed
qed

lemma main_init_tail_extends:
  assumes "main_version s0 = Return () s1" "main_deletestate env s1 = Return () s2"
  shows "news (\<lambda>e. True) s2 (main_init env s0)"
  unfolding main_init_def using assms
  apply simp
  apply (intro news_andThen
      news_True[OF main_DeleteOldDatabases_quiet] news_True[OF main_deleteOldCompactionDatabases_quiet]
      news_True[OF main_networkPassword_quiet] news_True[OF main_network_quiet]
      news_True[OF main_peerAddr_quiet] news_True[OF main_ircServer_building]
      main_checkPeers_extends news_True[OF main_snapshots_building]
      news_True[OF main_raft_building] news_True[OF main_canary_building]
      news_True[OF main_serve_building])
  done

lemma main_startup_tail_extends:
  assumes "main_version s0 = Return () s1" "main_deletestate env s1 = Return () s2"
    "main_startup env s0 = Some r"
  shows "news (\<lambda>e. True) s2 r"
proof (cases "main_init env s0")
  case (Exit c s')
  with assms(3) have "r = Exit c s'" by (simp add: main_startup_def)
  with main_init_tail_extends[OF assms(1,2)] Exit show ?thesis by (simp add: news_def)
next
  case (Return u s3)
  with assms(3) obtain rj where j: "main_join env s3 = Some rj"
    and r: "r = andThen rj (\<lambda>p s2. andThen (main_SetPeers p s2) (\<lambda>u s3. main_timers s3))"
    by (auto simp: main_startup_def split: option.splits)
  have "news (\<lambda>e. True) s3 r"
    unfolding r
    by (intro news_andThen main_join_extends[OF j]
          news_True[OF main_SetPeers_extends] news_True[OF main_timers_extends])
  moreover from main_init_tail_extends[OF assms(1,2)] Return have "news (\<lambda>e. True) s2 (Return u s3 :: unit result)"
    by (simp add: news_def)
  ultimately show ?thesis by (auto simp: news_def)
qed

subsection \<open>The network password\<close>

lemma networkPassword_same: "networkPassword f = v \<Longrightarrow> f\<lparr>networkPassword := v\<rparr> = f"
  by (cases f) simp

text \<open>
  Claim C5. With an empty \<^verbatim>\<open>-network_password\<close> flag the password is the value of the
  environment variable \<^verbatim>\<open>ROBUSTIRC_NETWORK_PASSWORD\<close> (a flag that is set is kept).
  When both are empty the step ends the process with \<^verbatim>\<open>log.Fatal\<close>, exit code 1; and a
  run of \<^verbatim>\<open>main\<close> (one that is more than \<^verbatim>\<open>-version\<close>) then always ends with exit
  code 1 having done nothing but log lines and calls on the disk: nothing was constructed
  and nothing is served.
\<close>

theorem network_password_from_environment:
  "(networkPassword (flag s) = '''' \<and> getenv env ''ROBUSTIRC_NETWORK_PASSWORD'' \<noteq> '''' \<longrightarrow>
      main_networkPassword env s =
        Return () (s\<lparr>flag := (flag s)\<lparr>networkPassword := getenv env ''ROBUSTIRC_NETWORK_PASSWORD''\<rparr>\<rparr>)) \<and>
   (networkPassword (flag s) \<noteq> '''' \<longrightarrow> main_networkPassword env s = Return () s) \<and>
   (networkPassword (flag s) = '''' \<and> getenv env ''ROBUSTIRC_NETWORK_PASSWORD'' = '''' \<longrightarrow>
      main_networkPassword env s =
        Exit 1 (emit (Log ''-network_password not set. You MUST protect your network.'') s)) \<and>
   (\<not> version fl \<and> networkPassword fl = '''' \<and> getenv env ''ROBUSTIRC_NETWORK_PASSWORD'' = '''' \<longrightarrow>
      (\<exists>s'. main env fl d ticks = Some (Exit 1 s') \<and> list_all quiet (trace s')))"
proof (intro conjI impI)
  assume "\<not> version fl \<and> networkPassword fl = '''' \<and> getenv env ''ROBUSTIRC_NETWORK_PASSWORD'' = ''''"
  then obtain s' where "main_init env (start fl d) = Exit 1 s'" "list_all quiet (trace s')"
    using main_early_exits[of "start fl d" env] by (auto simp: start_def)
  then show "\<exists>s'. main env fl d ticks = Some (Exit 1 s') \<and> list_all quiet (trace s')"
    by (simp add: main_def main_startup_def)
qed (simp_all add: main_networkPassword_def log_Fatal_def Let_def networkPassword_same)

theorem network_password_from_environment_witness:
  "networkPassword default_flags = '''' \<and> \<not> version default_flags \<and>
   getenv quiet_env ''ROBUSTIRC_NETWORK_PASSWORD'' = '''' \<and>
   main_networkPassword quiet_env (start default_flags []) =
     Exit 1 \<lparr>flag = default_flags, disk = [],
             trace = [Log ''-network_password not set. You MUST protect your network.''], requests = 0\<rparr> \<and>
   (\<exists>s'. main quiet_env default_flags [] [] = Some (Exit 1 s') \<and> list_all quiet (trace s')) \<and>
   getenv (quiet_env\<lparr>getenv := (\<lambda>name. ''hunter2'')\<rparr>) ''ROBUSTIRC_NETWORK_PASSWORD'' \<noteq> '''' \<and>
   main_networkPassword (quiet_env\<lparr>getenv := (\<lambda>name. ''hunter2'')\<rparr>) (start default_flags []) =
     Return () \<lparr>flag = default_flags\<lparr>networkPassword := ''hunter2''\<rparr>, disk = [], trace = [], requests = 0\<rparr>"
  using network_password_from_environment
          [of "start default_flags []" quiet_env default_flags "[]" "[]"]
        network_password_from_environment
          [of "start default_flags []" "quiet_env\<lparr>getenv := (\<lambda>name. ''hunter2'')\<rparr>" default_flags "[]" "[]"]
  by (simp add: quiet_env_def default_flags_def emit_def start_def)

subsection \<open>The sentinel file \<^verbatim>\<open>deletestate\<close>\<close>

lemma map_of_filter_key:
  "map_of (filter (\<lambda>(q, n). P q) d) k = (if P k then map_of d k else None)"
  by (induction d) auto

lemma main_deletestate_absent:
  "os_Stat (disk s) (filepath_Join (raftDir (flag s)) ''deletestate'') = Inl e \<Longrightarrow>
   main_deletestate env s = Return () s"
  by (simp add: main_deletestate_def)

lemma main_deletestate_present:
  assumes "os_Stat (disk s) (filepath_Join (raftDir (flag s)) ''deletestate'') = Inr info"
  shows "(\<exists>s'. main_deletestate env s = Exit 1 s') \<or>
         (\<exists>s'. main_deletestate env s = Return () s' \<and> flag s' = flag s \<and>
            trace s' = trace s @ [Sys (SysRemoveAll (raftDir (flag s))), Sys (SysMkdir (raftDir (flag s))),
                                  Log ''Deleted %q because %q existed''] \<and>
            map_of (disk s') (raftDir (flag s)) = Some (Dir 448) \<and>
            (\<forall>q. strict_prefix (raftDir (flag s)) q \<longrightarrow> map_of (disk s') q = None) \<and>
            (\<forall>q. \<not> prefix (raftDir (flag s)) q \<longrightarrow> map_of (disk s') q = map_of (disk s) q))"
proof (cases "os_RemoveAll env (raftDir (flag s)) (disk s)")
  case (Inl err)
  with assms show ?thesis by (simp add: main_deletestate_def log_Fatal_def)
next
  case (Inr d1)
  show ?thesis
  proof (cases "os_Mkdir env (raftDir (flag s)) 448 d1")
    case (Inl err)
    with assms Inr show ?thesis by (simp add: main_deletestate_def log_Fatal_def Let_def)
  next
    case Inr2: (Inr d2)
    from Inr2 have ne: "raftDir (flag s) \<noteq> []" and d2: "d2 = d1 @ [(raftDir (flag s), Dir 448)]"
      by (auto simp: os_Mkdir_def split: option.splits if_splits)
    from Inr ne have d1: "d1 = filter (\<lambda>(q, n). \<not> prefix (raftDir (flag s)) q) (disk s)"
      by (auto simp: os_RemoveAll_def split: option.splits)
    have look: "map_of d2 q =
        (if prefix (raftDir (flag s)) q then (if q = raftDir (flag s) then Some (Dir 448) else None)
         else map_of (disk s) q)" for q
      unfolding d2 d1 by (auto simp: map_add_def map_of_filter_key split: option.splits)
    have "main_deletestate env s =
            Return () (log_Printf ''Deleted %q because %q existed''
              (emit (Sys (SysMkdir (raftDir (flag s))))
                ((emit (Sys (SysRemoveAll (raftDir (flag s)))) (s\<lparr>disk := d1\<rparr>))\<lparr>disk := d2\<rparr>)))"
      using assms Inr Inr2 by (simp add: main_deletestate_def Let_def)
    moreover have "map_of d2 (raftDir (flag s)) = Some (Dir 448)"
      by (simp add: look)
    moreover have "\<forall>q. strict_prefix (raftDir (flag s)) q \<longrightarrow> map_of d2 q = None"
      by (auto simp: look strict_prefix_def)
    moreover have "\<forall>q. \<not> prefix (raftDir (flag s)) q \<longrightarrow> map_of d2 q = map_of (disk s) q"
      by (simp add: look)
    ultimately show ?thesis by simp
  qed
qed

lemma main_deletestate_succeeds:
  assumes "os_Stat (disk s) (filepath_Join (raftDir (flag s)) ''deletestate'') = Inr info"
    "os_fault env (SysRemoveAll (raftDir (flag s))) = None"
    "os_fault env (SysMkdir (raftDir (flag s))) = None"
    "raftDir (flag s) \<noteq> []"
    "butlast (raftDir (flag s)) = [] \<or> map_of (disk s) (butlast (raftDir (flag s))) \<noteq> None"
  shows "\<exists>s'. main_deletestate env s = Return () s'"
proof -
  let ?dir = "raftDir (flag s)"
  let ?d1 = "filter (\<lambda>(q, n). \<not> prefix ?dir q) (disk s)"
  have r: "os_RemoveAll env ?dir (disk s) = Inr ?d1"
    using assms(2,4) by (simp add: os_RemoveAll_def)
  have "\<not> prefix ?dir (butlast ?dir)"
    using assms(4) by (metis append_butlast_last_id prefix_order.dual_order.antisym prefix_def
        self_append_conv snoc_eq_iff_butlast)
  then have "map_of ?d1 (butlast ?dir) = map_of (disk s) (butlast ?dir)"
    by (simp add: map_of_filter_key)
  moreover have "map_of ?d1 ?dir = None"
    by (simp add: map_of_filter_key)
  ultimately obtain d2 where "os_Mkdir env ?dir 448 ?d1 = Inr d2"
    using assms(3,4,5) by (auto simp: os_Mkdir_def)
  with assms(1) r show ?thesis by (simp add: main_deletestate_def Let_def)
qed

lemma main_wipe_first:
  assumes m: "main env fl d ticks = Some r"
    and st: "os_Stat d (filepath_Join (raftDir fl) ''deletestate'') = Inr info"
    and nq: "\<not> list_all quiet (trace (final r))"
  shows "prefix [Log ''RobustIRC %s'', Sys (SysRemoveAll (raftDir fl)), Sys (SysMkdir (raftDir fl)),
                 Log ''Deleted %q because %q existed''] (trace (final r))"
proof -
  let ?s0 = "start fl d"
  let ?s1 = "log_Printf ''RobustIRC %s'' ?s0"
  from m obtain r0 where r0: "main_startup env ?s0 = Some r0"
    and r: "r = andThen r0 (\<lambda>u s. main_loop ticks s)"
    by (auto simp: main_def split: option.splits)
  have t1: "trace ?s1 = [Log ''RobustIRC %s'']" by (simp add: start_def)
  show ?thesis
  proof (cases "version fl")
    case True
    then have "main_init env ?s0 = Exit 0 ?s1"
      by (simp add: main_init_def main_version_def Let_def start_def)
    with r0 r have "r = Exit 0 ?s1" by (auto simp: main_startup_def)
    with nq t1 show ?thesis by simp
  next
    case False
    then have v: "main_version ?s0 = Return () ?s1"
      by (simp add: main_version_def Let_def start_def)
    have st1: "os_Stat (disk ?s1) (filepath_Join (raftDir (flag ?s1)) ''deletestate'') = Inr info"
      using st by (simp add: start_def)
    from main_deletestate_present[OF st1, of env] show ?thesis
    proof (elim disjE exE conjE)
      fix s' assume e: "main_deletestate env ?s1 = Exit 1 s'"
      from news_all[OF main_deletestate_quiet, of ?s1 env] e t1 have q: "list_all quiet (trace s')"
        by simp
      from v e have "main_init env ?s0 = Exit 1 s'" by (simp add: main_init_def)
      with r0 r have "r = Exit 1 s'" by (auto simp: main_startup_def)
      with nq q show ?thesis by simp
    next
      fix s2 assume e: "main_deletestate env ?s1 = Return () s2"
        and t2: "trace s2 = trace ?s1 @ [Sys (SysRemoveAll (raftDir (flag ?s1))),
                   Sys (SysMkdir (raftDir (flag ?s1))), Log ''Deleted %q because %q existed'']"
      from main_startup_tail_extends[OF v e r0] have "news (\<lambda>e. True) s2 r0" .
      moreover have "news (\<lambda>e. True) (final r0) r"
        unfolding r by (cases r0) (simp_all add: news_True[OF main_loop_extends])
      ultimately have "news (\<lambda>e. True) s2 r" by (rule news_trans)
      then have "prefix (trace s2) (trace (final r))" by (auto simp: news_def)
      with t2 t1 show ?thesis by (simp add: start_def)
    qed
  qed
qed

text \<open>
  Claim C4. The step of lines 326 to 334 looks for \<^verbatim>\<open>deletestate\<close> in the data directory
  with \<^verbatim>\<open>os.Stat\<close>. When the file is absent the step changes nothing at all. When it is
  there, the step either ends the process (\<^verbatim>\<open>log.Fatal\<close>, when removing or recreating
  fails) or goes on with the data directory removed and recreated: the directory exists
  with mode 0700 (448), nothing is below it, and every path outside it is as before; and it
  does go on when the operating system refuses neither call and the directory has a parent.
  In a run of \<^verbatim>\<open>main\<close> that finds the file and does anything beyond log lines and calls
  on the disk (constructing the IRC server, the stores, Raft, serving, joining), the trace
  starts with the version line, the removal and the recreation: the wipe comes first.
\<close>

theorem deletestate_wipes_data_directory:
  "(os_Stat (disk s) (filepath_Join (raftDir (flag s)) ''deletestate'') = Inl e \<longrightarrow>
      main_deletestate env s = Return () s) \<and>
   (os_Stat (disk s) (filepath_Join (raftDir (flag s)) ''deletestate'') = Inr info \<longrightarrow>
      (\<exists>s'. main_deletestate env s = Exit 1 s') \<or>
      (\<exists>s'. main_deletestate env s = Return () s' \<and> flag s' = flag s \<and>
         trace s' = trace s @ [Sys (SysRemoveAll (raftDir (flag s))), Sys (SysMkdir (raftDir (flag s))),
                               Log ''Deleted %q because %q existed''] \<and>
         map_of (disk s') (raftDir (flag s)) = Some (Dir 448) \<and>
         (\<forall>q. strict_prefix (raftDir (flag s)) q \<longrightarrow> map_of (disk s') q = None) \<and>
         (\<forall>q. \<not> prefix (raftDir (flag s)) q \<longrightarrow> map_of (disk s') q = map_of (disk s) q))) \<and>
   (os_Stat (disk s) (filepath_Join (raftDir (flag s)) ''deletestate'') = Inr info \<and>
    os_fault env (SysRemoveAll (raftDir (flag s))) = None \<and>
    os_fault env (SysMkdir (raftDir (flag s))) = None \<and>
    raftDir (flag s) \<noteq> [] \<and>
    (butlast (raftDir (flag s)) = [] \<or> map_of (disk s) (butlast (raftDir (flag s))) \<noteq> None) \<longrightarrow>
      (\<exists>s'. main_deletestate env s = Return () s')) \<and>
   (main env fl d ticks = Some r \<and>
    os_Stat d (filepath_Join (raftDir fl) ''deletestate'') = Inr info \<and>
    \<not> list_all quiet (trace (final r)) \<longrightarrow>
      prefix [Log ''RobustIRC %s'', Sys (SysRemoveAll (raftDir fl)), Sys (SysMkdir (raftDir fl)),
              Log ''Deleted %q because %q existed''] (trace (final r)))"
  using main_deletestate_absent[of s e env] main_deletestate_present[of s info env]
    main_deletestate_succeeds[of s info env] main_wipe_first[of env fl d ticks r info]
  by blast

theorem deletestate_wipes_data_directory_witness:
  "os_Stat example_disk (filepath_Join (raftDir example_flags) ''deletestate'') = Inr (File Blob) \<and>
   (\<exists>s'. main_deletestate quiet_env (start example_flags example_disk) = Return () s' \<and>
      trace s' = [Sys (SysRemoveAll [''var'', ''lib'', ''robustirc'']),
                  Sys (SysMkdir [''var'', ''lib'', ''robustirc'']), Log ''Deleted %q because %q existed''] \<and>
      map_of (disk s') [''var'', ''lib'', ''robustirc''] = Some (Dir 448) \<and>
      map_of (disk s') [''var'', ''lib'', ''robustirc'', ''peers.json''] = None \<and>
      map_of (disk s') [''var'', ''lib''] = Some (Dir 493)) \<and>
   os_Stat [] (filepath_Join (raftDir example_flags) ''deletestate'') = Inl ''no such file or directory'' \<and>
   main_deletestate quiet_env (start example_flags []) = Return () (start example_flags []) \<and>
   (\<exists>r. main quiet_env (example_flags\<lparr>singleNode := True\<rparr>) example_disk [] = Some r \<and>
      Serve \<in> set (trace (final r)) \<and>
      prefix [Log ''RobustIRC %s'', Sys (SysRemoveAll [''var'', ''lib'', ''robustirc'']),
              Sys (SysMkdir [''var'', ''lib'', ''robustirc'']), Log ''Deleted %q because %q existed'']
        (trace (final r)))"
proof -
  let ?s = "start example_flags example_disk"
  let ?fl = "example_flags\<lparr>singleNode := True\<rparr>"
  have st: "os_Stat example_disk (filepath_Join (raftDir example_flags) ''deletestate'') = Inr (File Blob)"
    and st': "os_Stat [] (filepath_Join (raftDir example_flags) ''deletestate'') = Inl ''no such file or directory''"
    and dir: "raftDir example_flags = [''var'', ''lib'', ''robustirc'']" "raftDir ?fl = [''var'', ''lib'', ''robustirc'']"
    by (simp_all add: model_defs)
  have s: "disk ?s = example_disk" "flag ?s = example_flags" "trace ?s = []"
    "disk (start example_flags []) = []" "flag (start example_flags []) = example_flags"
    by (simp_all add: start_def)
  have ok: "os_fault quiet_env (SysRemoveAll (raftDir example_flags)) = None"
    "os_fault quiet_env (SysMkdir (raftDir example_flags)) = None"
    "map_of example_disk (butlast (raftDir example_flags)) \<noteq> None"
    by (simp_all add: model_defs)
  note inst = deletestate_wipes_data_directory[where s = ?s and env = quiet_env and info = "File Blob",
      unfolded s]
  have pre: "os_Stat example_disk (filepath_Join (raftDir example_flags) ''deletestate'') = Inr (File Blob) \<and>
    os_fault quiet_env (SysRemoveAll (raftDir example_flags)) = None \<and>
    os_fault quiet_env (SysMkdir (raftDir example_flags)) = None \<and>
    raftDir example_flags \<noteq> [] \<and>
    (butlast (raftDir example_flags) = [] \<or> map_of example_disk (butlast (raftDir example_flags)) \<noteq> None)"
    using st ok by (simp add: dir)
  from inst[THEN conjunct2, THEN conjunct2, THEN conjunct1, rule_format, OF pre]
  obtain s' where a: "main_deletestate quiet_env ?s = Return () s'" ..
  from inst[THEN conjunct2, THEN conjunct1, rule_format, OF st] a have b:
      "trace s' = [Sys (SysRemoveAll (raftDir example_flags)), Sys (SysMkdir (raftDir example_flags)),
                   Log ''Deleted %q because %q existed'']"
      "map_of (disk s') (raftDir example_flags) = Some (Dir 448)"
      "\<forall>q. strict_prefix (raftDir example_flags) q \<longrightarrow> map_of (disk s') q = None"
      "\<forall>q. \<not> prefix (raftDir example_flags) q \<longrightarrow> map_of (disk s') q = map_of example_disk q"
    by simp_all
  from b(3)[rule_format, of "[''var'', ''lib'', ''robustirc'', ''peers.json'']"]
  have c: "map_of (disk s') [''var'', ''lib'', ''robustirc'', ''peers.json''] = None"
    by (simp add: dir strict_prefix_def)
  from b(4)[rule_format, of "[''var'', ''lib'']"]
  have d: "map_of (disk s') [''var'', ''lib''] = Some (Dir 493)"
    by (simp add: dir example_disk_def)
  from deletestate_wipes_data_directory[where s = "start example_flags []" and env = quiet_env
      and e = "''no such file or directory''", unfolded s, THEN conjunct1, rule_format, OF st']
  have e: "main_deletestate quiet_env (start example_flags []) = Return () (start example_flags [])"
    by simp
  have "map_option (\<lambda>r. Serve \<in> set (trace (final r))) (main quiet_env ?fl example_disk []) = Some True"
    by (simp add: model_defs)
  then obtain r where r: "main quiet_env ?fl example_disk [] = Some r" and sv: "Serve \<in> set (trace (final r))"
    by auto
  from sv have nq: "\<not> list_all quiet (trace (final r))"
    by (auto simp: list_all_iff intro!: bexI[of _ Serve])
  have pre2: "main quiet_env ?fl example_disk [] = Some r \<and>
      os_Stat example_disk (filepath_Join (raftDir ?fl) ''deletestate'') = Inr (File Blob) \<and>
      \<not> list_all quiet (trace (final r))"
    using r st nq by (simp add: dir)
  from deletestate_wipes_data_directory[where fl = ?fl and env = quiet_env and d = example_disk
      and ticks = "[]" and r = r and info = "File Blob",
      THEN conjunct2, THEN conjunct2, THEN conjunct2, rule_format, OF pre2]
  have f: "prefix [Log ''RobustIRC %s'', Sys (SysRemoveAll [''var'', ''lib'', ''robustirc'']),
              Sys (SysMkdir [''var'', ''lib'', ''robustirc'']), Log ''Deleted %q because %q existed'']
        (trace (final r))"
    by (simp add: dir)
  from st st' a b(1,2) c d e r sv f show ?thesis by (simp add: dir)
qed

subsection \<open>A start with neither \<^verbatim>\<open>-join\<close> nor \<^verbatim>\<open>-singlenode\<close>\<close>

lemma only_myself: "(length peers = Suc 0 \<and> peers ! 0 = a) = (peers = [a])"
  by (cases peers) auto

text \<open>
  Claim C10. For a node started with neither \<^verbatim>\<open>-join\<close> nor \<^verbatim>\<open>-singlenode\<close>, the step of
  lines 373 to 392 reads the stored peer list (an error reading it is fatal). An empty list
  ends the process with \<^verbatim>\<open>log.Fatal\<close> unless the time safeguard is disabled, in which
  case the step goes on without any check. A list whose only entry is the node's own
  address ends the process with \<^verbatim>\<open>log.Fatal\<close> after \<^verbatim>\<open>time.Sleep\<close> of 10 seconds (10^10
  nanoseconds). Any other list is passed to \<^verbatim>\<open>timesafeguard.SynchronizedWithNetwork\<close>,
  and an error it returns ends the process with \<^verbatim>\<open>log.Fatal\<close>; without an error the step
  goes on.
\<close>

theorem peers_check_without_join:
  "join (flag s) = '''' \<and> \<not> singleNode (flag s) \<longrightarrow>
   (JSONPeers_Peers env (raftDir (flag s)) (disk s) = Inl err \<longrightarrow>
      main_checkPeers env s = Exit 1 (emit (Log err) s)) \<and>
   (JSONPeers_Peers env (raftDir (flag s)) (disk s) = Inr [] \<longrightarrow>
      main_checkPeers env s =
        (if DisableTimesafeguard env then Return () s
         else Exit 1 (emit (Log ''No peers known and -join not specified. Joining the network is not safe because timesafeguard cannot be called.'') s))) \<and>
   (JSONPeers_Peers env (raftDir (flag s)) (disk s) = Inr [peerAddr (flag s)] \<longrightarrow>
      main_checkPeers env s =
        Exit 1 (emit (Log ''Only known peer is myself (%q), implying this node was removed from the network. Please kill the process and remove the data.'')
                  (emit (Sleep (10 * Second)) s)) \<and>
      10 * Second = 10000000000) \<and>
   (JSONPeers_Peers env (raftDir (flag s)) (disk s) = Inr peers \<and> peers \<noteq> [] \<and>
    peers \<noteq> [peerAddr (flag s)] \<longrightarrow>
      main_checkPeers env s =
        (case timesafeguard_SynchronizedWithNetwork env (peerAddr (flag s)) peers (networkPassword (flag s)) of
           Some err \<Rightarrow>
             Exit 1 (emit (Log err)
               (emit (SynchronizedWithNetwork (peerAddr (flag s)) peers (networkPassword (flag s)) (Some err)) s))
         | None \<Rightarrow>
             Return () (emit (SynchronizedWithNetwork (peerAddr (flag s)) peers (networkPassword (flag s)) None) s)))"
proof (intro impI conjI)
  assume a: "join (flag s) = '''' \<and> \<not> singleNode (flag s)"
  {
    assume "JSONPeers_Peers env (raftDir (flag s)) (disk s) = Inl err"
    with a show "main_checkPeers env s = Exit 1 (emit (Log err) s)"
      by (simp add: main_checkPeers_def log_Fatal_def)
  }
  {
    assume "JSONPeers_Peers env (raftDir (flag s)) (disk s) = Inr []"
    with a show "main_checkPeers env s =
        (if DisableTimesafeguard env then Return () s
         else Exit 1 (emit (Log ''No peers known and -join not specified. Joining the network is not safe because timesafeguard cannot be called.'') s))"
      by (simp add: main_checkPeers_def log_Fatal_def)
  }
  {
    assume "JSONPeers_Peers env (raftDir (flag s)) (disk s) = Inr [peerAddr (flag s)]"
    with a show "main_checkPeers env s =
        Exit 1 (emit (Log ''Only known peer is myself (%q), implying this node was removed from the network. Please kill the process and remove the data.'')
                  (emit (Sleep (10 * Second)) s))"
      by (simp add: main_checkPeers_def log_Fatal_def)
  }
  {
    assume "JSONPeers_Peers env (raftDir (flag s)) (disk s) = Inr peers \<and> peers \<noteq> [] \<and>
       peers \<noteq> [peerAddr (flag s)]"
    with a show "main_checkPeers env s =
        (case timesafeguard_SynchronizedWithNetwork env (peerAddr (flag s)) peers (networkPassword (flag s)) of
           Some err \<Rightarrow>
             Exit 1 (emit (Log err)
               (emit (SynchronizedWithNetwork (peerAddr (flag s)) peers (networkPassword (flag s)) (Some err)) s))
         | None \<Rightarrow>
             Return () (emit (SynchronizedWithNetwork (peerAddr (flag s)) peers (networkPassword (flag s)) None) s))"
      by (simp add: main_checkPeers_def log_Fatal_def only_myself Let_def split: option.splits)
  }
  show "10 * Second = 10000000000" by (simp add: Second_def)
qed

theorem peers_check_without_join_witness:
  "join example_flags = '''' \<and> \<not> singleNode example_flags \<and>
   JSONPeers_Peers quiet_env (raftDir example_flags) [] = Inr [] \<and>
   \<not> DisableTimesafeguard quiet_env \<and>
   main_checkPeers quiet_env (start example_flags []) =
     Exit 1 (emit (Log ''No peers known and -join not specified. Joining the network is not safe because timesafeguard cannot be called.'')
               (start example_flags [])) \<and>
   main_checkPeers (quiet_env\<lparr>DisableTimesafeguard := True\<rparr>) (start example_flags []) =
     Return () (start example_flags []) \<and>
   JSONPeers_Peers quiet_env (raftDir example_flags) joined_disk = Inr [''a.example:60667''] \<and>
   main_checkPeers quiet_env (start (example_flags\<lparr>peerAddr := ''a.example:60667''\<rparr>) joined_disk) =
     Exit 1 (emit (Log ''Only known peer is myself (%q), implying this node was removed from the network. Please kill the process and remove the data.'')
               (emit (Sleep 10000000000) (start (example_flags\<lparr>peerAddr := ''a.example:60667''\<rparr>) joined_disk))) \<and>
   main_checkPeers quiet_env (start example_flags joined_disk) =
     Return () (emit (SynchronizedWithNetwork ''b.example:60667'' [''a.example:60667''] ''hunter2'' None)
                  (start example_flags joined_disk)) \<and>
   main_checkPeers (quiet_env\<lparr>timesafeguard_SynchronizedWithNetwork := (\<lambda>a ps pw. Some ''clock is off'')\<rparr>)
       (start example_flags joined_disk) =
     Exit 1 (emit (Log ''clock is off'')
               (emit (SynchronizedWithNetwork ''b.example:60667'' [''a.example:60667''] ''hunter2'' (Some ''clock is off''))
                  (start example_flags joined_disk)))"
proof -
  have f: "join example_flags = ''''" "\<not> singleNode example_flags"
    "peerAddr example_flags = ''b.example:60667''" "networkPassword example_flags = ''hunter2''"
    "raftDir example_flags = [''var'', ''lib'', ''robustirc'']"
    by (simp_all add: example_flags_def default_flags_def)
  have p: "JSONPeers_Peers env [''var'', ''lib'', ''robustirc''] [] = Inr []"
    "JSONPeers_Peers env [''var'', ''lib'', ''robustirc''] joined_disk = Inr [''a.example:60667'']"
    if "os_fault env = (\<lambda>c. None)" for env
    using that by (simp_all add: JSONPeers_Peers_def filepath_Join_def joined_disk_def)
  have q: "os_fault quiet_env = (\<lambda>c. None)" "\<not> DisableTimesafeguard quiet_env"
    "timesafeguard_SynchronizedWithNetwork quiet_env = (\<lambda>a ps pw. None)"
    by (simp_all add: quiet_env_def)
  show ?thesis
    using peers_check_without_join[where s = "start example_flags []" and env = quiet_env]
      peers_check_without_join[where s = "start example_flags []" and env = "quiet_env\<lparr>DisableTimesafeguard := True\<rparr>"]
      peers_check_without_join[where s = "start (example_flags\<lparr>peerAddr := ''a.example:60667''\<rparr>) joined_disk"
        and env = quiet_env]
      peers_check_without_join[where s = "start example_flags joined_disk" and env = quiet_env
        and peers = "[''a.example:60667'']"]
      peers_check_without_join[where s = "start example_flags joined_disk"
        and env = "quiet_env\<lparr>timesafeguard_SynchronizedWithNetwork := (\<lambda>a ps pw. Some ''clock is off'')\<rparr>"
        and peers = "[''a.example:60667'']"]
    by (simp add: f p q start_def Second_def)
qed

subsection \<open>A failed time safeguard check\<close>

lemma quiet_calm: "quiet e \<Longrightarrow> calm e"
  by (rule building_calm[OF quiet_building])

lemma news_sound: "news P s r \<Longrightarrow> (\<And>e. P e \<Longrightarrow> calm e) \<Longrightarrow> sound s r"
  unfolding sound_def by (rule disjI1) (rule news_mono)

lemma sound_andThen:
  assumes "sound s r" and "\<And>a s'. r = Return a s' \<Longrightarrow> sound s' (f a s')"
  shows "sound s (andThen r f)"
proof (cases r)
  case (Exit c s')
  with assms(1) show ?thesis by (auto simp: sound_def news_def halted_def)
next
  case (Return a s')
  with assms(1) obtain es where es: "trace s' = trace s @ es" "list_all calm es"
    by (auto simp: sound_def news_def halted_def)
  from assms(2)[OF Return] have "news calm s' (f a s') \<or> halted s' (f a s')"
    by (simp add: sound_def)
  then show ?thesis
  proof
    assume "news calm s' (f a s')"
    with es Return show ?thesis by (auto simp: sound_def news_def)
  next
    assume "halted s' (f a s')"
    then obtain s'' pre chk err where h: "f a s' = Exit 1 s''"
      "trace s'' = trace s' @ pre @ [chk, Log err]" "check_error chk = Some err" "list_all calm pre"
      by (auto simp: halted_def)
    from h es have "trace s'' = trace s @ (es @ pre) @ [chk, Log err]" "list_all calm (es @ pre)"
      by simp_all
    with h(1,3) Return have "halted s (andThen r f)"
      unfolding halted_def by (auto simp del: append_assoc)
    then show ?thesis by (simp add: sound_def)
  qed
qed

lemma main_checkPeers_sound: "sound s (main_checkPeers env s)"
proof (cases "join (flag s) = '''' \<and> \<not> singleNode (flag s)")
  case False
  then show ?thesis by (auto simp: main_checkPeers_def sound_def)
next
  case True
  show ?thesis
  proof (cases "JSONPeers_Peers env (raftDir (flag s)) (disk s)")
    case (Inl err)
    with True show ?thesis
      by (auto simp: main_checkPeers_def sound_def news_def calm_def log_Fatal_def)
  next
    case (Inr peers)
    let ?r = "timesafeguard_SynchronizedWithNetwork env (peerAddr (flag s)) peers (networkPassword (flag s))"
    let ?chk = "SynchronizedWithNetwork (peerAddr (flag s)) peers (networkPassword (flag s)) ?r"
    consider "peers = []" | "peers = [peerAddr (flag s)]"
      | "peers \<noteq> []" "peers \<noteq> [peerAddr (flag s)]" by blast
    then show ?thesis
    proof cases
      case 1
      with True Inr show ?thesis
        by (auto simp: main_checkPeers_def sound_def news_def calm_def log_Fatal_def)
    next
      case 2
      with True Inr show ?thesis
        by (auto simp: main_checkPeers_def sound_def news_def calm_def log_Fatal_def)
    next
      case 3
      with True Inr have m: "main_checkPeers env s =
          (case ?r of Some err \<Rightarrow> Exit 1 (emit (Log err) (emit ?chk s)) | None \<Rightarrow> Return () (emit ?chk s))"
        by (simp add: main_checkPeers_def log_Fatal_def only_myself Let_def split: option.splits)
      show ?thesis
      proof (cases ?r)
        case None
        with m show ?thesis by (auto simp: sound_def news_def calm_def)
      next
        case (Some err)
        with m have "main_checkPeers env s = Exit 1 (emit (Log err) (emit ?chk s))" by simp
        moreover have "trace (emit (Log err) (emit ?chk s)) = trace s @ [] @ [?chk, Log err]" by simp
        moreover have "check_error ?chk = Some err" using Some by simp
        ultimately have "halted s (main_checkPeers env s)"
          unfolding halted_def by (intro exI conjI) (assumption, assumption, assumption, simp)
        then show ?thesis by (simp add: sound_def)
      qed
    qed
  qed
qed

lemma main_init_sound: "sound s (main_init env s)"
  unfolding main_init_def
  by (intro sound_andThen main_checkPeers_sound
        news_sound[OF main_version_quiet quiet_calm]
        news_sound[OF main_deletestate_quiet quiet_calm]
        news_sound[OF main_DeleteOldDatabases_quiet quiet_calm]
        news_sound[OF main_deleteOldCompactionDatabases_quiet quiet_calm]
        news_sound[OF main_networkPassword_quiet quiet_calm]
        news_sound[OF main_network_quiet quiet_calm]
        news_sound[OF main_peerAddr_quiet quiet_calm]
        news_sound[OF main_ircServer_building building_calm]
        news_sound[OF main_snapshots_building building_calm]
        news_sound[OF main_raft_building building_calm]
        news_sound[OF main_canary_building building_calm]
        news_sound[OF main_serve_building building_calm])

lemma main_join_failed:
  assumes "join (flag s) \<noteq> ''''"
    "timesafeguard_SynchronizedWithMasterAndNetwork env
       (peerAddr (flag s)) (join (flag s)) (networkPassword (flag s)) = Some err"
  shows "main_join env s =
           Some (Exit 1 (emit (Log err)
             (emit (SynchronizedWithMasterAndNetwork
                      (peerAddr (flag s)) (join (flag s)) (networkPassword (flag s)) (Some err)) s)))"
  using assms by (simp add: main_join_def log_Fatal_def Let_def)

lemma main_join_cases:
  assumes "main_join env s = Some r"
  shows "news (\<lambda>e. check_error e = None) s r \<or>
         (\<exists>chk err. r = Exit 1 (emit (Log err) (emit chk s)) \<and> check_error chk = Some err)"
proof (cases "join (flag s) = ''''")
  case True
  with assms show ?thesis by (auto simp: main_join_def)
next
  case False
  let ?r = "timesafeguard_SynchronizedWithMasterAndNetwork env
              (peerAddr (flag s)) (join (flag s)) (networkPassword (flag s))"
  let ?chk = "SynchronizedWithMasterAndNetwork
              (peerAddr (flag s)) (join (flag s)) (networkPassword (flag s)) ?r"
  show ?thesis
  proof (cases ?r)
    case (Some err)
    from main_join_failed[OF False Some] assms
    have "r = Exit 1 (emit (Log err) (emit (SynchronizedWithMasterAndNetwork
              (peerAddr (flag s)) (join (flag s)) (networkPassword (flag s)) (Some err)) s))"
      by simp
    then show ?thesis
      by (intro disjI2 exI[of _ "SynchronizedWithMasterAndNetwork
              (peerAddr (flag s)) (join (flag s)) (networkPassword (flag s)) (Some err)"] exI[of _ err])
         simp
  next
    case None
    with assms False have "joinMaster env (join (flag s)) (emit ?chk s) = Some r"
      by (simp add: main_join_def Let_def)
    from joinMaster_extends[OF this] have "news (\<lambda>e. check_error e = None) s r"
      by (rule news_step[where es = "[?chk]"]) (simp_all add: None)
    then show ?thesis ..
  qed
qed

lemma calm_no_error: "list_all calm es \<Longrightarrow> e \<in> set es \<Longrightarrow> check_error e = None"
  by (auto simp: list_all_iff calm_def)

lemma main_halts_after_failed_check:
  assumes m: "main env fl d ticks = Some r"
    and e: "e \<in> set (trace (final r))" "check_error e = Some err"
  shows "\<exists>s' pre. r = Exit 1 s' \<and> trace s' = pre @ [e, Log err] \<and> list_all calm pre"
proof -
  let ?s0 = "start fl d"
  from m obtain r0 where r0: "main_startup env ?s0 = Some r0"
    and r: "r = andThen r0 (\<lambda>u s. main_loop ticks s)"
    by (auto simp: main_def split: option.splits)
  have t0: "trace ?s0 = []" by (simp add: start_def)
  have last: "\<exists>s' pre. r = Exit 1 s' \<and> trace s' = pre @ [e, Log err] \<and> list_all calm pre"
    if "r = Exit 1 s'" "trace s' = pre @ [chk, Log err']" "list_all calm pre" "check_error chk = Some err'"
    for s' pre chk err'
  proof -
    from e(1) that(1,2) have "e \<in> set pre \<or> e = chk \<or> e = Log err'" by auto
    with calm_no_error[OF that(3)] e(2) have "e = chk" by auto
    with that e(2) show ?thesis by auto
  qed
  from main_init_sound[of ?s0 env] show ?thesis
    unfolding sound_def
  proof
    assume "halted ?s0 (main_init env ?s0)"
    then obtain s' pre chk err' where h: "main_init env ?s0 = Exit 1 s'"
      "trace s' = pre @ [chk, Log err']" "check_error chk = Some err'" "list_all calm pre"
      by (auto simp: halted_def t0)
    from h(1) r0 have "r0 = Exit 1 s'" by (auto simp: main_startup_def)
    with r have "r = Exit 1 s'" by simp
    from last[OF this h(2,4,3)] show ?thesis .
  next
    assume n: "news calm ?s0 (main_init env ?s0)"
    show ?thesis
    proof (cases "main_init env ?s0")
      case (Exit c s')
      with r0 have "r0 = Exit c s'" by (auto simp: main_startup_def)
      with r have "r = Exit c s'" by simp
      with n Exit e(1) have "check_error e = None"
        by (auto simp: news_def t0 dest: calm_no_error)
      with e(2) show ?thesis by simp
    next
      case (Return u s3)
      with n have c3: "list_all calm (trace s3)" by (auto simp: news_def t0)
      from Return r0 obtain rj where j: "main_join env s3 = Some rj"
        and rr: "r0 = andThen rj (\<lambda>p s2. andThen (main_SetPeers p s2) (\<lambda>u s3. main_timers s3))"
        by (auto simp: main_startup_def split: option.splits)
      from main_join_cases[OF j] show ?thesis
      proof (elim disjE exE conjE)
        fix chk err'
        assume x: "rj = Exit 1 (emit (Log err') (emit chk s3))" "check_error chk = Some err'"
        with rr r have "r = Exit 1 (emit (Log err') (emit chk s3))" by simp
        moreover have "trace (emit (Log err') (emit chk s3)) = trace s3 @ [chk, Log err']" by simp
        ultimately show ?thesis using c3 x(2) by (rule last)
      next
        assume "news (\<lambda>e. check_error e = None) s3 rj"
        then have "news (\<lambda>e. check_error e = None) s3 r0"
          unfolding rr by (intro news_andThen main_SetPeers_extends main_timers_extends)
        moreover have "news (\<lambda>e. check_error e = None) (final r0) r"
          unfolding r by (cases r0) (simp_all add: main_loop_extends)
        ultimately have "news (\<lambda>e. check_error e = None) s3 r" by (rule news_trans)
        then obtain es where "trace (final r) = trace s3 @ es" "list_all (\<lambda>e. check_error e = None) es"
          by (auto simp: news_def)
        with e(1) calm_no_error[OF c3] have "check_error e = None"
          by (auto simp: list_all_iff)
        with e(2) show ?thesis by simp
      qed
    qed
  qed
qed

text \<open>
  Claim C7. When \<^verbatim>\<open>timesafeguard.SynchronizedWithNetwork\<close> returns an error, the step of
  lines 373 to 392 ends the process: the error is logged by \<^verbatim>\<open>log.Fatal\<close>, exit code 1.
  When \<^verbatim>\<open>timesafeguard.SynchronizedWithMasterAndNetwork\<close> returns an error, the step of
  lines 520 to 527 ends the process in the same way, and \<^verbatim>\<open>joinMaster\<close> is not called.
  In every run of \<^verbatim>\<open>main\<close>: a time safeguard check that returned an error is followed by
  the log line of that error and by nothing else, the run ended with exit code 1, and before
  the check there was no join request, no change of the peer list and no other failed check.
\<close>

theorem time_skew_is_fatal:
  "(join (flag s) = '''' \<and> \<not> singleNode (flag s) \<and>
    JSONPeers_Peers env (raftDir (flag s)) (disk s) = Inr peers \<and> peers \<noteq> [] \<and>
    peers \<noteq> [peerAddr (flag s)] \<and>
    timesafeguard_SynchronizedWithNetwork env (peerAddr (flag s)) peers (networkPassword (flag s)) = Some err \<longrightarrow>
      main_checkPeers env s =
        Exit 1 (emit (Log err)
          (emit (SynchronizedWithNetwork (peerAddr (flag s)) peers (networkPassword (flag s)) (Some err)) s))) \<and>
   (join (flag s) \<noteq> '''' \<and>
    timesafeguard_SynchronizedWithMasterAndNetwork env
      (peerAddr (flag s)) (join (flag s)) (networkPassword (flag s)) = Some err \<longrightarrow>
      main_join env s =
        Some (Exit 1 (emit (Log err)
          (emit (SynchronizedWithMasterAndNetwork
                   (peerAddr (flag s)) (join (flag s)) (networkPassword (flag s)) (Some err)) s)))) \<and>
   (main env fl d ticks = Some r \<and> e \<in> set (trace (final r)) \<and> check_error e = Some err \<longrightarrow>
      (\<exists>s' pre. r = Exit 1 s' \<and> trace s' = pre @ [e, Log err] \<and>
         list_all (\<lambda>x. check_error x = None \<and> \<not> is_join x) pre))"
proof (intro conjI impI)
  assume "join (flag s) = '''' \<and> \<not> singleNode (flag s) \<and>
    JSONPeers_Peers env (raftDir (flag s)) (disk s) = Inr peers \<and> peers \<noteq> [] \<and>
    peers \<noteq> [peerAddr (flag s)] \<and>
    timesafeguard_SynchronizedWithNetwork env (peerAddr (flag s)) peers (networkPassword (flag s)) = Some err"
  then show "main_checkPeers env s =
        Exit 1 (emit (Log err)
          (emit (SynchronizedWithNetwork (peerAddr (flag s)) peers (networkPassword (flag s)) (Some err)) s))"
    by (simp add: main_checkPeers_def log_Fatal_def only_myself Let_def)
next
  assume "join (flag s) \<noteq> '''' \<and>
    timesafeguard_SynchronizedWithMasterAndNetwork env
      (peerAddr (flag s)) (join (flag s)) (networkPassword (flag s)) = Some err"
  then show "main_join env s =
        Some (Exit 1 (emit (Log err)
          (emit (SynchronizedWithMasterAndNetwork
                   (peerAddr (flag s)) (join (flag s)) (networkPassword (flag s)) (Some err)) s)))"
    by (simp add: main_join_failed)
next
  assume "main env fl d ticks = Some r \<and> e \<in> set (trace (final r)) \<and> check_error e = Some err"
  then have "\<exists>s' pre. r = Exit 1 s' \<and> trace s' = pre @ [e, Log err] \<and> list_all calm pre"
    using main_halts_after_failed_check by blast
  then show "\<exists>s' pre. r = Exit 1 s' \<and> trace s' = pre @ [e, Log err] \<and>
         list_all (\<lambda>x. check_error x = None \<and> \<not> is_join x) pre"
    by (auto simp: calm_def[abs_def])
qed

theorem time_skew_is_fatal_witness:
  "main_checkPeers (quiet_env\<lparr>timesafeguard_SynchronizedWithNetwork := (\<lambda>a ps pw. Some ''clock is off'')\<rparr>)
       (start example_flags joined_disk) =
     Exit 1 (emit (Log ''clock is off'')
       (emit (SynchronizedWithNetwork ''b.example:60667'' [''a.example:60667''] ''hunter2'' (Some ''clock is off''))
          (start example_flags joined_disk))) \<and>
   main_join (quiet_env\<lparr>timesafeguard_SynchronizedWithMasterAndNetwork := (\<lambda>a m pw. Some ''clock is off'')\<rparr>)
       (start (example_flags\<lparr>join := ''a.example:60667''\<rparr>) []) =
     Some (Exit 1 (emit (Log ''clock is off'')
       (emit (SynchronizedWithMasterAndNetwork ''b.example:60667'' ''a.example:60667'' ''hunter2'' (Some ''clock is off''))
          (start (example_flags\<lparr>join := ''a.example:60667''\<rparr>) [])))) \<and>
   (\<exists>r s' pre.
      main (quiet_env\<lparr>timesafeguard_SynchronizedWithNetwork := (\<lambda>a ps pw. Some ''clock is off'')\<rparr>)
        example_flags joined_disk [] = Some r \<and>
      r = Exit 1 s' \<and>
      trace s' = pre @ [SynchronizedWithNetwork ''b.example:60667'' [''a.example:60667''] ''hunter2'' (Some ''clock is off''),
                        Log ''clock is off''] \<and>
      list_all (\<lambda>x. check_error x = None \<and> \<not> is_join x) pre) \<and>
   (\<exists>r s' pre.
      main (quiet_env\<lparr>timesafeguard_SynchronizedWithMasterAndNetwork := (\<lambda>a m pw. Some ''clock is off'')\<rparr>)
        (example_flags\<lparr>join := ''a.example:60667''\<rparr>) joined_disk [] = Some r \<and>
      r = Exit 1 s' \<and>
      trace s' = pre @ [SynchronizedWithMasterAndNetwork ''b.example:60667'' ''a.example:60667'' ''hunter2'' (Some ''clock is off''),
                        Log ''clock is off''] \<and>
      Serve \<in> set pre \<and>
      list_all (\<lambda>x. check_error x = None \<and> \<not> is_join x) pre)"
proof -
  let ?env1 = "quiet_env\<lparr>timesafeguard_SynchronizedWithNetwork := (\<lambda>a ps pw. Some ''clock is off'')\<rparr>"
  let ?env2 = "quiet_env\<lparr>timesafeguard_SynchronizedWithMasterAndNetwork := (\<lambda>a m pw. Some ''clock is off'')\<rparr>"
  let ?s1 = "start example_flags joined_disk"
  let ?fl2 = "example_flags\<lparr>join := ''a.example:60667''\<rparr>"
  let ?s2 = "start ?fl2 []"
  let ?chk1 = "SynchronizedWithNetwork ''b.example:60667'' [''a.example:60667''] ''hunter2'' (Some ''clock is off'')"
  let ?chk2 = "SynchronizedWithMasterAndNetwork ''b.example:60667'' ''a.example:60667'' ''hunter2'' (Some ''clock is off'')"
  have pre1: "join (flag ?s1) = '''' \<and> \<not> singleNode (flag ?s1) \<and>
    JSONPeers_Peers ?env1 (raftDir (flag ?s1)) (disk ?s1) = Inr [''a.example:60667''] \<and>
    [''a.example:60667''] \<noteq> [] \<and> [''a.example:60667''] \<noteq> [peerAddr (flag ?s1)] \<and>
    timesafeguard_SynchronizedWithNetwork ?env1 (peerAddr (flag ?s1)) [''a.example:60667'']
      (networkPassword (flag ?s1)) = Some ''clock is off''"
    by (simp add: model_defs)
  have pre2: "join (flag ?s2) \<noteq> '''' \<and>
    timesafeguard_SynchronizedWithMasterAndNetwork ?env2
      (peerAddr (flag ?s2)) (join (flag ?s2)) (networkPassword (flag ?s2)) = Some ''clock is off''"
    by (simp add: model_defs)
  have f: "peerAddr (flag ?s1) = ''b.example:60667''" "networkPassword (flag ?s1) = ''hunter2''"
    "peerAddr (flag ?s2) = ''b.example:60667''" "networkPassword (flag ?s2) = ''hunter2''"
    "join (flag ?s2) = ''a.example:60667''"
    by (simp_all add: model_defs)
  note a = time_skew_is_fatal[where s = ?s1 and env = ?env1 and peers = "[''a.example:60667'']"
      and err = "''clock is off''", THEN conjunct1, rule_format, OF pre1, unfolded f]
  note b = time_skew_is_fatal[where s = ?s2 and env = ?env2
      and err = "''clock is off''", THEN conjunct2, THEN conjunct1, rule_format, OF pre2, unfolded f]
  have "map_option (\<lambda>r. ?chk1 \<in> set (trace (final r))) (main ?env1 example_flags joined_disk []) = Some True"
    by (simp add: model_defs)
  then obtain r1 where r1: "main ?env1 example_flags joined_disk [] = Some r1"
    "?chk1 \<in> set (trace (final r1))" by auto
  then have "main ?env1 example_flags joined_disk [] = Some r1 \<and> ?chk1 \<in> set (trace (final r1)) \<and>
    check_error ?chk1 = Some ''clock is off''" by simp
  from time_skew_is_fatal[THEN conjunct2, THEN conjunct2, rule_format, OF this] r1(1)
  have c: "\<exists>r s' pre. main ?env1 example_flags joined_disk [] = Some r \<and> r = Exit 1 s' \<and>
      trace s' = pre @ [?chk1, Log ''clock is off''] \<and>
      list_all (\<lambda>x. check_error x = None \<and> \<not> is_join x) pre"
    by blast
  have "map_option (\<lambda>r. ?chk2 \<in> set (trace (final r)) \<and> Serve \<in> set (trace (final r)))
          (main ?env2 ?fl2 joined_disk []) = Some True"
    by (simp add: model_defs)
  then obtain r2 where r2: "main ?env2 ?fl2 joined_disk [] = Some r2"
    "?chk2 \<in> set (trace (final r2))" "Serve \<in> set (trace (final r2))" by auto
  then have "main ?env2 ?fl2 joined_disk [] = Some r2 \<and> ?chk2 \<in> set (trace (final r2)) \<and>
    check_error ?chk2 = Some ''clock is off''" by simp
  from time_skew_is_fatal[THEN conjunct2, THEN conjunct2, rule_format, OF this]
  obtain s' pre where x: "r2 = Exit 1 s'" "trace s' = pre @ [?chk2, Log ''clock is off'']"
    "list_all (\<lambda>x. check_error x = None \<and> \<not> is_join x) pre" by blast
  from x(1,2) r2(3) have "Serve \<in> set pre" by simp
  with x r2(1) have d: "\<exists>r s' pre. main ?env2 ?fl2 joined_disk [] = Some r \<and> r = Exit 1 s' \<and>
      trace s' = pre @ [?chk2, Log ''clock is off''] \<and> Serve \<in> set pre \<and>
      list_all (\<lambda>x. check_error x = None \<and> \<not> is_join x) pre"
    by blast
  from a b c d show ?thesis by blast
qed

subsection \<open>\<^verbatim>\<open>joinMaster\<close>\<close>

lemma AddUniquePeer_member: "peer \<in> set (AddUniquePeer peers peer)"
  by (simp add: AddUniquePeer_def)

lemma AddUniquePeer_count: "count_list (AddUniquePeer peers peer) peer = max 1 (count_list peers peer)"
proof (cases "peer \<in> set peers")
  case True
  then have "count_list peers peer \<noteq> 0" by (simp add: count_list_0_iff)
  with True show ?thesis by (simp add: AddUniquePeer_def)
next
  case False
  then have "count_list peers peer = 0" by (simp add: count_list_0_iff)
  with False show ?thesis by (simp add: AddUniquePeer_def)
qed

lemma AddUniquePeer_distinct: "distinct peers \<Longrightarrow> distinct (AddUniquePeer peers peer)"
  by (simp add: AddUniquePeer_def)

lemma JSONPeers_SetPeers_result:
  "JSONPeers_Peers env dir d = Inr stored \<Longrightarrow> JSONPeers_SetPeers env dir ps d = (err, d1) \<Longrightarrow>
   (err = None) = (os_fault env (SysWriteFile (filepath_Join dir ''peers.json'')) = None \<and>
                   (dir = [] \<or> map_of d dir \<noteq> None)) \<and>
   (err = None \<longrightarrow>
      d1 = (filepath_Join dir ''peers.json'', File (PeersJSON ps)) #
           filter (\<lambda>(q, n). q \<noteq> filepath_Join dir ''peers.json'') d \<and>
      JSONPeers_Peers env dir d1 = Inr ps)"
  by (auto simp: JSONPeers_SetPeers_def JSONPeers_Peers_def
           split: option.splits node.splits content.splits if_splits)

lemma joinMaster_joined:
  "joinMaster env addr s = Some r \<Longrightarrow> r = Return p s' \<Longrightarrow>
   \<exists>master stored hosts err. joined env s p s' master stored hosts err"
proof (induction env addr s r arbitrary: p s' rule: joinMaster.raw_induct[rotated 1, consumes 1])
  case (1 joinMaster' env addr s r)
  let ?s1 = "emit (JoinRequest addr) (s\<lparr>requests := Suc (requests s)\<rparr>)"
  have step: "\<exists>master stored hosts err. joined env s p s' master stored hosts err"
    if "joinMaster' env host ?s1 = Some (Return p s')" for host
  proof -
    from "1.IH"[OF that refl] obtain master stored hosts err
      where "joined env ?s1 p s' master stored hosts err" by blast
    then have "joined env s p s' master stored (addr # hosts) err"
      by (auto simp: joined_def)
    then show ?thesis by blast
  qed
  have base: "\<exists>master stored' hosts err'. joined env s (AddUniquePeer stored addr)
        (emit (SetPeers (AddUniquePeer stored addr) err)
           ((log_Printf ''Adding master %q as peer'' ?s1)\<lparr>disk := d1\<rparr>)) master stored' hosts err'"
    if "json_Marshal env (peerAddr (flag s)) = Inr buf"
      "client_Do env (requests s) addr buf = Response code loc body" "\<not> 299 < code"
      "JSONPeers_Peers env (raftDir (flag s)) (disk s) = Inr stored"
      "JSONPeers_SetPeers env (raftDir (flag s)) (AddUniquePeer stored addr) (disk s) = (err, d1)"
    for stored err d1 buf code loc body
  proof -
    from that have "joined env s (AddUniquePeer stored addr)
        (emit (SetPeers (AddUniquePeer stored addr) err)
           ((log_Printf ''Adding master %q as peer'' ?s1)\<lparr>disk := d1\<rparr>)) addr stored [] err"
      by (simp add: joined_def)
    then show ?thesis by blast
  qed
  from "1.hyps" "1.prems" show ?case
    by (auto simp: Let_def log_Fatal_def
             split: sum.splits option.splits http_result.splits if_splits prod.splits
             intro: step base)
qed

text \<open>
  Claim C9. A request to \<^verbatim>\<open>addr\<close> that could be built and sent gets a response. With a
  status above 399 \<^verbatim>\<open>joinMaster\<close> ends the process (\<^verbatim>\<open>log.Fatal\<close>, exit code 1). With a
  status from 300 to 399 and no \<^verbatim>\<open>Location\<close> header it ends the process too; with a
  \<^verbatim>\<open>Location\<close> that parses it is \<^verbatim>\<open>joinMaster\<close> on the host of that location. When
  \<^verbatim>\<open>joinMaster\<close> returns a list \<open>p\<close>, then after the redirects it reached a master that
  answered with a status of at most 299, \<open>p\<close> is the stored peer list with the master added
  by \<^verbatim>\<open>AddUniquePeer\<close>, and \<open>p\<close> was passed to \<^verbatim>\<open>SetPeers\<close>. The master is in \<open>p\<close>, as
  often as it was in the stored list and once if it was not there: exactly once whenever
  the stored list did not repeat it; and \<open>p\<close> repeats no address if the stored list repeated
  none. \<^verbatim>\<open>SetPeers\<close> reports no error exactly when the file can be written and the data
  directory exists, and then \<^verbatim>\<open>peers.json\<close> is replaced by \<open>p\<close>, which is the list that
  \<^verbatim>\<open>Peers()\<close> reads afterwards.
\<close>

theorem joinMaster_follows_redirects:
  "(json_Marshal env (peerAddr (flag s)) = Inr buf \<and>
    http_NewRequest env (''https://'' @ addr @ ''/join'') = None \<and>
    client_Do env (requests s) addr buf = Response code loc body \<longrightarrow>
      (399 < code \<longrightarrow>
         joinMaster env addr s =
           Some (Exit 1 (emit (Log (''Join request failed:'' @ body))
                   (emit (JoinRequest addr) (s\<lparr>requests := requests s + 1\<rparr>))))) \<and>
      (299 < code \<and> code \<le> 399 \<and> loc = '''' \<longrightarrow>
         joinMaster env addr s =
           Some (Exit 1 (emit (Log ''Redirect has no Location header'')
                   (emit (JoinRequest addr) (s\<lparr>requests := requests s + 1\<rparr>))))) \<and>
      (299 < code \<and> code \<le> 399 \<and> loc \<noteq> '''' \<and> url_Parse env loc = Inr host \<longrightarrow>
         joinMaster env addr s =
           joinMaster env host (emit (JoinRequest addr) (s\<lparr>requests := requests s + 1\<rparr>)))) \<and>
   (joinMaster env addr s = Some (Return p s') \<longrightarrow>
      (\<exists>master stored hosts err.
         trace s' = trace s @ map JoinRequest hosts @
           [JoinRequest master, Log ''Adding master %q as peer'', SetPeers p err] \<and>
         (\<exists>buf code loc body.
            json_Marshal env (peerAddr (flag s)) = Inr buf \<and>
            client_Do env (requests s + length hosts) master buf = Response code loc body \<and>
            code \<le> 299) \<and>
         JSONPeers_Peers env (raftDir (flag s)) (disk s) = Inr stored \<and>
         p = AddUniquePeer stored master \<and>
         master \<in> set p \<and>
         count_list p master = max 1 (count_list stored master) \<and>
         (count_list stored master \<le> 1 \<longrightarrow> count_list p master = 1) \<and>
         (distinct stored \<longrightarrow> distinct p) \<and>
         (err = None) =
           (os_fault env (SysWriteFile (filepath_Join (raftDir (flag s)) ''peers.json'')) = None \<and>
            (raftDir (flag s) = [] \<or> map_of (disk s) (raftDir (flag s)) \<noteq> None)) \<and>
         (err = None \<longrightarrow>
            disk s' =
              (filepath_Join (raftDir (flag s)) ''peers.json'', File (PeersJSON p)) #
              filter (\<lambda>(q, n). q \<noteq> filepath_Join (raftDir (flag s)) ''peers.json'') (disk s) \<and>
            JSONPeers_Peers env (raftDir (flag s')) (disk s') = Inr p)))"
proof (intro conjI impI)
  assume a: "json_Marshal env (peerAddr (flag s)) = Inr buf \<and>
    http_NewRequest env (''https://'' @ addr @ ''/join'') = None \<and>
    client_Do env (requests s) addr buf = Response code loc body"
  {
    assume "399 < code"
    with a show "joinMaster env addr s =
           Some (Exit 1 (emit (Log (''Join request failed:'' @ body))
                   (emit (JoinRequest addr) (s\<lparr>requests := requests s + 1\<rparr>))))"
      by (subst joinMaster.simps) (simp add: log_Fatal_def)
  }
  {
    assume "299 < code \<and> code \<le> 399 \<and> loc = ''''"
    with a show "joinMaster env addr s =
           Some (Exit 1 (emit (Log ''Redirect has no Location header'')
                   (emit (JoinRequest addr) (s\<lparr>requests := requests s + 1\<rparr>))))"
      by (subst joinMaster.simps) (simp add: log_Fatal_def)
  }
  {
    assume "299 < code \<and> code \<le> 399 \<and> loc \<noteq> '''' \<and> url_Parse env loc = Inr host"
    with a show "joinMaster env addr s =
           joinMaster env host (emit (JoinRequest addr) (s\<lparr>requests := requests s + 1\<rparr>))"
      by (subst joinMaster.simps) simp
  }
next
  assume "joinMaster env addr s = Some (Return p s')"
  from joinMaster_joined[OF this refl] obtain master stored hosts err
    where j: "joined env s p s' master stored hosts err"
    by blast
  let ?dir = "raftDir (flag s)"
  let ?path = "filepath_Join ?dir ''peers.json''"
  from j have tr: "trace s' = trace s @ map JoinRequest hosts @
           [JoinRequest master, Log ''Adding master %q as peer'', SetPeers p err]"
    and rsp: "\<exists>buf code loc body.
            json_Marshal env (peerAddr (flag s)) = Inr buf \<and>
            client_Do env (requests s + length hosts) master buf = Response code loc body \<and>
            code \<le> 299"
    and fl: "flag s' = flag s"
    and st: "JSONPeers_Peers env ?dir (disk s) = Inr stored"
    and p: "p = AddUniquePeer stored master"
    and sp: "JSONPeers_SetPeers env ?dir p (disk s) = (err, disk s')"
    by (auto simp: joined_def)
  have m: "master \<in> set p" "count_list p master = max 1 (count_list stored master)"
    "count_list stored master \<le> 1 \<longrightarrow> count_list p master = 1" "distinct stored \<longrightarrow> distinct p"
    unfolding p by (simp_all add: AddUniquePeer_member AddUniquePeer_count AddUniquePeer_distinct)
  note res = JSONPeers_SetPeers_result[OF st sp]
  have e: "(err = None) = (os_fault env (SysWriteFile ?path) = None \<and> (?dir = [] \<or> map_of (disk s) ?dir \<noteq> None))"
    by (rule res[THEN conjunct1])
  have w: "err = None \<longrightarrow>
            disk s' = (?path, File (PeersJSON p)) # filter (\<lambda>(q, n). q \<noteq> ?path) (disk s) \<and>
            JSONPeers_Peers env (raftDir (flag s')) (disk s') = Inr p"
    unfolding fl by (rule res[THEN conjunct2])
  show "\<exists>master stored hosts err.
         trace s' = trace s @ map JoinRequest hosts @
           [JoinRequest master, Log ''Adding master %q as peer'', SetPeers p err] \<and>
         (\<exists>buf code loc body.
            json_Marshal env (peerAddr (flag s)) = Inr buf \<and>
            client_Do env (requests s + length hosts) master buf = Response code loc body \<and>
            code \<le> 299) \<and>
         JSONPeers_Peers env (raftDir (flag s)) (disk s) = Inr stored \<and>
         p = AddUniquePeer stored master \<and>
         master \<in> set p \<and>
         count_list p master = max 1 (count_list stored master) \<and>
         (count_list stored master \<le> 1 \<longrightarrow> count_list p master = 1) \<and>
         (distinct stored \<longrightarrow> distinct p) \<and>
         (err = None) =
           (os_fault env (SysWriteFile (filepath_Join (raftDir (flag s)) ''peers.json'')) = None \<and>
            (raftDir (flag s) = [] \<or> map_of (disk s) (raftDir (flag s)) \<noteq> None)) \<and>
         (err = None \<longrightarrow>
            disk s' =
              (filepath_Join (raftDir (flag s)) ''peers.json'', File (PeersJSON p)) #
              filter (\<lambda>(q, n). q \<noteq> filepath_Join (raftDir (flag s)) ''peers.json'') (disk s) \<and>
            JSONPeers_Peers env (raftDir (flag s')) (disk s') = Inr p)"
    by (rule exI[of _ master], rule exI[of _ stored], rule exI[of _ hosts], rule exI[of _ err],
        intro conjI) (rule tr rsp st p m e w)+
qed

theorem joinMaster_follows_redirects_witness:
  "joinMaster redirecting_env ''a.example:60667'' (start example_flags joined_disk) =
     joinMaster redirecting_env ''leader.example:60667''
       (emit (JoinRequest ''a.example:60667'') ((start example_flags joined_disk)\<lparr>requests := 0 + 1\<rparr>)) \<and>
   joinMaster redirecting_env ''a.example:60667'' (start example_flags joined_disk) =
     Some (Return [''a.example:60667'', ''leader.example:60667'']
       \<lparr>flag = example_flags,
        disk = [([''var'', ''lib'', ''robustirc'', ''peers.json''],
                   File (PeersJSON [''a.example:60667'', ''leader.example:60667''])),
                ([''var''], Dir 493), ([''var'', ''lib''], Dir 493),
                ([''var'', ''lib'', ''robustirc''], Dir 448)],
        trace = [JoinRequest ''a.example:60667'', JoinRequest ''leader.example:60667'',
                 Log ''Adding master %q as peer'',
                 SetPeers [''a.example:60667'', ''leader.example:60667''] None],
        requests = 2\<rparr>) \<and>
   JSONPeers_Peers redirecting_env [''var'', ''lib'', ''robustirc'']
       [([''var'', ''lib'', ''robustirc'', ''peers.json''],
           File (PeersJSON [''a.example:60667'', ''leader.example:60667''])),
        ([''var''], Dir 493), ([''var'', ''lib''], Dir 493),
        ([''var'', ''lib'', ''robustirc''], Dir 448)] =
     Inr [''a.example:60667'', ''leader.example:60667''] \<and>
   count_list [''a.example:60667'', ''leader.example:60667''] ''leader.example:60667'' = 1 \<and>
   joinMaster (quiet_env\<lparr>client_Do := (\<lambda>k a b. Response 403 '''' ''forbidden'')\<rparr>)
       ''a.example:60667'' (start example_flags joined_disk) =
     Some (Exit 1 (emit (Log ''Join request failed:forbidden'')
       (emit (JoinRequest ''a.example:60667'') ((start example_flags joined_disk)\<lparr>requests := 0 + 1\<rparr>)))) \<and>
   joinMaster (quiet_env\<lparr>client_Do := (\<lambda>k a b. Response 307 '''' '''')\<rparr>)
       ''a.example:60667'' (start example_flags joined_disk) =
     Some (Exit 1 (emit (Log ''Redirect has no Location header'')
       (emit (JoinRequest ''a.example:60667'') ((start example_flags joined_disk)\<lparr>requests := 0 + 1\<rparr>))))"
proof -
  let ?s = "start example_flags joined_disk"
  let ?a = "''a.example:60667''"
  let ?l = "''leader.example:60667''"
  let ?dir = "[''var'', ''lib'', ''robustirc'']"
  let ?d' = "[([''var'', ''lib'', ''robustirc'', ''peers.json''], File (PeersJSON [?a, ?l])),
             ([''var''], Dir 493), ([''var'', ''lib''], Dir 493),
             ([''var'', ''lib'', ''robustirc''], Dir 448)]"
  let ?s' = "\<lparr>flag = example_flags, disk = ?d',
             trace = [JoinRequest ?a, JoinRequest ?l, Log ''Adding master %q as peer'',
                      SetPeers [?a, ?l] None],
             requests = 2\<rparr>"
  let ?e403 = "quiet_env\<lparr>client_Do := (\<lambda>k a b. Response 403 '''' ''forbidden'')\<rparr>"
  let ?e307 = "quiet_env\<lparr>client_Do := (\<lambda>k a b. Response 307 '''' '''')\<rparr>"
  have rq: "requests ?s = 0" by (simp add: start_def)
  have pre: "json_Marshal redirecting_env (peerAddr (flag ?s)) = Inr ''b.example:60667'' \<and>
      http_NewRequest redirecting_env (''https://'' @ ?a @ ''/join'') = None \<and>
      client_Do redirecting_env (requests ?s) ?a ''b.example:60667'' =
        Response 307 ''https://leader.example:60667/join'' ''''"
    by (simp add: model_defs)
  have red: "299 < (307::int) \<and> (307::int) \<le> 399 \<and> ''https://leader.example:60667/join'' \<noteq> '''' \<and>
      url_Parse redirecting_env ''https://leader.example:60667/join'' = Inr ?l"
    by (simp add: model_defs)
  note c1 = joinMaster_follows_redirects[where env = redirecting_env and s = ?s and addr = ?a,
      THEN conjunct1, rule_format, OF pre, THEN conjunct2, THEN conjunct2, rule_format, OF red, unfolded rq]
  have pre403: "json_Marshal ?e403 (peerAddr (flag ?s)) = Inr ''b.example:60667'' \<and>
      http_NewRequest ?e403 (''https://'' @ ?a @ ''/join'') = None \<and>
      client_Do ?e403 (requests ?s) ?a ''b.example:60667'' = Response 403 '''' ''forbidden''"
    by (simp add: model_defs)
  have "399 < (403::int)" by simp
  note c2 = joinMaster_follows_redirects[where env = ?e403 and s = ?s and addr = ?a,
      THEN conjunct1, rule_format, OF pre403, THEN conjunct1, rule_format, OF this, unfolded rq]
  have pre307: "json_Marshal ?e307 (peerAddr (flag ?s)) = Inr ''b.example:60667'' \<and>
      http_NewRequest ?e307 (''https://'' @ ?a @ ''/join'') = None \<and>
      client_Do ?e307 (requests ?s) ?a ''b.example:60667'' = Response 307 '''' ''''"
    by (simp add: model_defs)
  have "299 < (307::int) \<and> (307::int) \<le> 399 \<and> '''' = (''''::string)" by simp
  note c3 = joinMaster_follows_redirects[where env = ?e307 and s = ?s and addr = ?a,
      THEN conjunct1, rule_format, OF pre307, THEN conjunct2, THEN conjunct1, rule_format, OF this,
      unfolded rq]
  have run: "joinMaster redirecting_env ?a ?s = Some (Return [?a, ?l] ?s')"
    by (simp add: joinMaster.simps model_defs emit_def log_Printf_def)
  from joinMaster_follows_redirects[THEN conjunct2, rule_format, OF run]
  obtain master stored hosts err where
    st: "JSONPeers_Peers redirecting_env (raftDir (flag ?s)) (disk ?s) = Inr stored"
    and p: "[?a, ?l] = AddUniquePeer stored master"
    and c: "count_list stored master \<le> 1 \<longrightarrow> count_list [?a, ?l] master = 1"
    and e: "(err = None) =
         (os_fault redirecting_env (SysWriteFile (filepath_Join (raftDir (flag ?s)) ''peers.json'')) = None \<and>
          (raftDir (flag ?s) = [] \<or> map_of (disk ?s) (raftDir (flag ?s)) \<noteq> None))"
    and w: "err = None \<longrightarrow>
         disk ?s' =
           (filepath_Join (raftDir (flag ?s)) ''peers.json'', File (PeersJSON [?a, ?l])) #
           filter (\<lambda>(q, n). q \<noteq> filepath_Join (raftDir (flag ?s)) ''peers.json'') (disk ?s) \<and>
         JSONPeers_Peers redirecting_env (raftDir (flag ?s')) (disk ?s') = Inr [?a, ?l]"
    by blast
  from st have stored: "stored = [?a]" by (simp add: model_defs)
  from p have master: "master = ?l"
    unfolding stored by (simp add: AddUniquePeer_def split: if_splits)
  from e have "err = None" by (simp add: model_defs)
  with w have "JSONPeers_Peers redirecting_env (raftDir (flag ?s')) (disk ?s') = Inr [?a, ?l]"
    by blast
  then have d1: "JSONPeers_Peers redirecting_env ?dir ?d' = Inr [?a, ?l]"
    by (simp add: example_flags_def default_flags_def)
  from c have d2: "count_list [?a, ?l] ?l = 1"
    unfolding stored master by simp
  from c1 c2 c3 run d1 d2 show ?thesis by simp
qed

text \<open>
  The master is not always in the persisted list exactly once. With a \<^verbatim>\<open>peers.json\<close> that
  names the master twice, \<^verbatim>\<open>AddUniquePeer\<close> adds nothing and removes nothing, and the list
  that is persisted names the master twice. And on a machine on which \<^verbatim>\<open>peers.json\<close> cannot
  be written, \<^verbatim>\<open>SetPeers\<close> returns an error that \<^verbatim>\<open>joinMaster\<close> does not look at:
  \<^verbatim>\<open>joinMaster\<close> returns the list with the master while the persisted list is the old one,
  without the master.
\<close>

theorem joinMaster_persisted_list_counterexample:
  "joinMaster quiet_env ''a.example:60667'' (start example_flags repeated_disk) =
     Some (Return [''a.example:60667'', ''a.example:60667'']
       \<lparr>flag = example_flags,
        disk = [([''var'', ''lib'', ''robustirc'', ''peers.json''],
                   File (PeersJSON [''a.example:60667'', ''a.example:60667''])),
                ([''var''], Dir 493), ([''var'', ''lib''], Dir 493),
                ([''var'', ''lib'', ''robustirc''], Dir 448)],
        trace = [JoinRequest ''a.example:60667'', Log ''Adding master %q as peer'',
                 SetPeers [''a.example:60667'', ''a.example:60667''] None],
        requests = 1\<rparr>) \<and>
   JSONPeers_Peers quiet_env [''var'', ''lib'', ''robustirc'']
       [([''var'', ''lib'', ''robustirc'', ''peers.json''],
           File (PeersJSON [''a.example:60667'', ''a.example:60667''])),
        ([''var''], Dir 493), ([''var'', ''lib''], Dir 493),
        ([''var'', ''lib'', ''robustirc''], Dir 448)] =
     Inr [''a.example:60667'', ''a.example:60667''] \<and>
   count_list [''a.example:60667'', ''a.example:60667''] ''a.example:60667'' = 2 \<and>
   joinMaster readonly_env ''leader.example:60667'' (start example_flags joined_disk) =
     Some (Return [''a.example:60667'', ''leader.example:60667'']
       \<lparr>flag = example_flags, disk = joined_disk,
        trace = [JoinRequest ''leader.example:60667'', Log ''Adding master %q as peer'',
                 SetPeers [''a.example:60667'', ''leader.example:60667''] (Some ''read-only file system'')],
        requests = 1\<rparr>) \<and>
   JSONPeers_Peers readonly_env [''var'', ''lib'', ''robustirc''] joined_disk = Inr [''a.example:60667''] \<and>
   count_list [''a.example:60667''] ''leader.example:60667'' = 0"
  by (simp add: joinMaster.simps model_defs emit_def log_Printf_def)

subsection \<open>The main loop\<close>

lemma main_loop_append:
  "main_loop (pre @ ts) s = andThen (main_loop pre s) (\<lambda>u s1. main_loop ts s1)"
proof (induction pre arbitrary: s)
  case Nil
  show ?case by simp
next
  case (Cons t pre)
  show ?case by (cases "loop_step t s") (simp_all add: Cons.IH)
qed

lemma loop_step_shutdown:
  "sees_shutdown t \<Longrightarrow>
   loop_step t s = Exit 1 (emit (Log ''Node removed from the network (in raft state shutdown), terminating.'') s)"
  by (simp add: sees_shutdown_def loop_step_def log_Fatal_def)

lemma loop_step_Exit: "loop_step t s = Exit c s' \<Longrightarrow> c = 1 \<and> sees_shutdown t"
  by (cases "chan t") (auto simp: loop_step_def log_Fatal_def sees_shutdown_def Let_def split: if_splits)

lemma main_loop_Exit:
  "main_loop ts s = Exit c s' \<Longrightarrow> c = 1 \<and> (\<exists>t \<in> set ts. sees_shutdown t)"
proof (induction ts arbitrary: s)
  case Nil
  then show ?case by simp
next
  case (Cons t ts)
  show ?case
  proof (cases "loop_step t s")
    case (Exit c1 s1)
    with Cons.prems loop_step_Exit[of t s c1 s1] show ?thesis by simp
  next
    case (Return u s1)
    with Cons.prems have "main_loop ts s1 = Exit c s'" by simp
    from Cons.IH[OF this] show ?thesis by simp
  qed
qed

text \<open>
  Claim C6. The ticker of the main loop has a period of one second (10^9 nanoseconds). On a
  wake-up of that ticker on which \<^verbatim>\<open>node.State()\<close> is \<^verbatim>\<open>Shutdown\<close>, the turn of the loop
  is \<^verbatim>\<open>log.Fatal\<close>: the message is logged and the process ends with exit code 1. In a
  sequence of wake-ups nothing after such a wake-up is processed, whatever follows it; and
  the loop ends the process in no other way.
\<close>

theorem shutdown_ends_the_process:
  "main_timers s = Return () (emit (Tick (1 * Second)) (emit (After expireSessionsInterval) s)) \<and>
   1 * Second = 1000000000 \<and>
   (chan t = secondTicker \<and> node_State t = Shutdown \<longrightarrow>
      loop_step t s =
        Exit 1 (emit (Log ''Node removed from the network (in raft state shutdown), terminating.'') s)) \<and>
   (chan t = secondTicker \<and> node_State t = Shutdown \<and> main_loop pre s = Return () s1 \<longrightarrow>
      main_loop (pre @ t # post) s =
        Exit 1 (emit (Log ''Node removed from the network (in raft state shutdown), terminating.'') s1)) \<and>
   (main_loop ts s = Exit c s' \<longrightarrow>
      c = 1 \<and> (\<exists>t \<in> set ts. chan t = secondTicker \<and> node_State t = Shutdown))"
proof (intro conjI impI)
  show "main_timers s = Return () (emit (Tick (1 * Second)) (emit (After expireSessionsInterval) s))"
    by (simp add: main_timers_def)
  show "1 * Second = 1000000000" by (simp add: Second_def)
next
  assume "chan t = secondTicker \<and> node_State t = Shutdown"
  then show "loop_step t s =
        Exit 1 (emit (Log ''Node removed from the network (in raft state shutdown), terminating.'') s)"
    by (simp add: loop_step_shutdown sees_shutdown_def)
next
  assume "chan t = secondTicker \<and> node_State t = Shutdown \<and> main_loop pre s = Return () s1"
  then show "main_loop (pre @ t # post) s =
        Exit 1 (emit (Log ''Node removed from the network (in raft state shutdown), terminating.'') s1)"
    by (simp add: main_loop_append loop_step_shutdown sees_shutdown_def)
next
  assume a: "main_loop ts s = Exit c s'"
  from main_loop_Exit[OF a] show "c = 1" by simp
  from main_loop_Exit[OF a] show "\<exists>t \<in> set ts. chan t = secondTicker \<and> node_State t = Shutdown"
    by (simp add: sees_shutdown_def)
qed

theorem shutdown_ends_the_process_witness:
  "main_loop [\<lparr>chan = secondTicker, node_State = Follower, clock = 0, sessions = [], apply_err = (\<lambda>m. None)\<rparr>]
       (start example_flags []) = Return () (start example_flags []) \<and>
   main_loop
     ([\<lparr>chan = secondTicker, node_State = Follower, clock = 0, sessions = [], apply_err = (\<lambda>m. None)\<rparr>] @
      \<lparr>chan = secondTicker, node_State = Shutdown, clock = 0, sessions = [], apply_err = (\<lambda>m. None)\<rparr> #
      [\<lparr>chan = expireSessionsTimer, node_State = Leader, clock = 0, sessions = [], apply_err = (\<lambda>m. None)\<rparr>])
     (start example_flags []) =
   Exit 1 (emit (Log ''Node removed from the network (in raft state shutdown), terminating.'')
             (start example_flags []))"
proof -
  let ?t1 = "\<lparr>chan = secondTicker, node_State = Follower, clock = 0, sessions = [], apply_err = (\<lambda>m. None)\<rparr>"
  let ?t2 = "\<lparr>chan = secondTicker, node_State = Shutdown, clock = 0, sessions = [], apply_err = (\<lambda>m. None)\<rparr>"
  have a: "main_loop [?t1] (start example_flags []) = Return () (start example_flags [])"
    by (simp add: loop_step_def)
  then have "chan ?t2 = secondTicker \<and> node_State ?t2 = Shutdown \<and>
      main_loop [?t1] (start example_flags []) = Return () (start example_flags [])"
    by simp
  from shutdown_ends_the_process[THEN conjunct2, THEN conjunct2, THEN conjunct2, THEN conjunct1,
      rule_format, OF this] a
  show ?thesis by simp
qed

subsection \<open>The session expiry\<close>

lemma proposals_append: "proposals (es @ fs) = proposals es @ proposals fs"
  by (induction es rule: proposals.induct) simp_all

lemma emit_update: "emit e s = s\<lparr>trace := trace s @ [e]\<rparr>"
  by (simp add: emit_def)

lemma applyAll_exact:
  "applyAll res msgs s =
     s\<lparr>trace := trace s @
          concat (map (\<lambda>m. ApplyMessageWait m 10000000000 #
                         (case res m of Some err \<Rightarrow> [Log (''Apply(): '' @ err)] | None \<Rightarrow> [])) msgs)\<rparr>"
proof (induction msgs arbitrary: s)
  case Nil
  show ?case by simp
next
  case (Cons msg msgs)
  show ?case
    by (cases "res msg") (simp_all add: Cons.IH emit_def log_Printf_def Second_def)
qed

lemma loop_step_described:
  assumes "\<not> sees_shutdown t"
  shows "loop_step t s = Return () (s\<lparr>trace := trace s @ described_turn t\<rparr>)"
proof (cases "chan t")
  case secondTicker
  with assms show ?thesis
    by (simp add: loop_step_def described_turn_def sees_shutdown_def)
next
  case expireSessionsTimer
  then show ?thesis
    by (simp add: loop_step_def described_turn_def Let_def applyAll_exact ExpireSessions_def
          expired_def[abs_def] expiry_message_def comp_def emit_def expireSessionsInterval_def Second_def)
qed

lemma main_loop_described:
  "main_loop ticks s =
     (if \<exists>t \<in> set ticks. sees_shutdown t
      then Exit 1 (s\<lparr>trace := trace s @
             concat (map described_turn (takeWhile (\<lambda>t. \<not> sees_shutdown t) ticks)) @
             [Log ''Node removed from the network (in raft state shutdown), terminating.'']\<rparr>)
      else Return () (s\<lparr>trace := trace s @ concat (map described_turn ticks)\<rparr>))"
proof (induction ticks arbitrary: s)
  case Nil
  show ?case by simp
next
  case (Cons t ticks)
  show ?case
  proof (cases "sees_shutdown t")
    case True
    then show ?thesis by (simp add: loop_step_shutdown emit_def)
  next
    case False
    then show ?thesis by (simp add: loop_step_described Cons.IH)
  qed
qed

lemma proposals_described:
  "proposals (described_turn t) =
     (if chan t = expireSessionsTimer \<and> node_State t = Leader
      then map (\<lambda>x. (expiry_message x, 10000000000))
             (filter (\<lambda>x. ttl x < clock t - last_activity x) (sessions t))
      else [])"
proof -
  have "proposals (concat (map (\<lambda>x. ApplyMessageWait (expiry_message x) 10000000000 #
            (case res (expiry_message x) of Some err \<Rightarrow> [Log (''Apply(): '' @ err)] | None \<Rightarrow> [])) xs)) =
        map (\<lambda>x. (expiry_message x, 10000000000)) xs" for res xs
    by (induction xs) (simp_all add: proposals_append split: option.splits)
  then show ?thesis
    by (cases "chan t") (simp_all add: described_turn_def)
qed

lemma main_startup_arms_timers:
  assumes "main_startup env s = Some (Return u s0)"
  shows "\<exists>pre. trace s0 = pre @ [After 10000000000, Tick 1000000000]"
proof -
  from assms obtain s1 rj where i: "main_init env s = Return () s1" and j: "main_join env s1 = Some rj"
    and r: "andThen rj (\<lambda>p s2. andThen (main_SetPeers p s2) (\<lambda>u s3. main_timers s3)) = Return u s0"
    by (auto simp: main_startup_def split: result.splits option.splits)
  from r obtain p s2 where rj: "rj = Return p s2" by (cases rj) simp_all
  obtain s3 where sp: "main_SetPeers p s2 = Return () s3"
    by (cases "p = []") (simp_all add: main_SetPeers_def)
  from r rj sp have "main_timers s3 = Return u s0" by simp
  then have "trace s0 = trace s3 @ [After 10000000000, Tick 1000000000]"
    by (auto simp: main_timers_def expireSessionsInterval_def Second_def)
  then show ?thesis by blast
qed

text \<open>
  Claim C2. \<^verbatim>\<open>expireSessionsInterval\<close> is 10 seconds (10^10 nanoseconds). A run of
  \<^verbatim>\<open>main\<close> that reaches the loop has armed the expiry timer with 10 seconds and the ticker
  with 1 second as the last things before it, and goes on as the loop does. The loop, on any
  sequence of wake-ups, does exactly what is described, turn by turn, until a wake-up of
  the ticker sees the node shut down (which ends the process): a wake-up of the ticker
  adds nothing, a wake-up of the expiry timer arms the timer again with 10 seconds whatever
  the state of the node, and only on a leader it then calls \<^verbatim>\<open>api.ApplyMessageWait\<close>, with
  a wait of 10 seconds, once for every session whose last activity is older than its TTL,
  each time with a DeleteSession message for that session. So the messages proposed in a
  turn are none off the leader, and that list on the leader. Nothing else of the state
  changes.
\<close>

theorem session_expiry_every_ten_seconds:
  "expireSessionsInterval = 10 * 1000000000 \<and>
   (main_startup env (start fl d) = Some (Return u s0) \<longrightarrow>
      (\<exists>pre. trace s0 = pre @ [After 10000000000, Tick 1000000000]) \<and>
      main env fl d ticks = Some (main_loop ticks s0)) \<and>
   main_loop ticks s =
     (if \<exists>t \<in> set ticks. chan t = secondTicker \<and> node_State t = Shutdown
      then Exit 1 (s\<lparr>trace := trace s @
             concat (map described_turn
                (takeWhile (\<lambda>t. \<not> (chan t = secondTicker \<and> node_State t = Shutdown)) ticks)) @
             [Log ''Node removed from the network (in raft state shutdown), terminating.'']\<rparr>)
      else Return () (s\<lparr>trace := trace s @ concat (map described_turn ticks)\<rparr>)) \<and>
   (chan t = expireSessionsTimer \<and> node_State t \<noteq> Leader \<longrightarrow>
      loop_step t s = Return () (s\<lparr>trace := trace s @ [After 10000000000]\<rparr>)) \<and>
   (chan t = expireSessionsTimer \<and> node_State t = Leader \<longrightarrow>
      loop_step t s =
        Return () (s\<lparr>trace := trace s @ After 10000000000 #
           concat (map (\<lambda>x. ApplyMessageWait \<lparr>msg_session = session_id x, msg_type = DeleteSession\<rparr> 10000000000 #
                            (case apply_err t \<lparr>msg_session = session_id x, msg_type = DeleteSession\<rparr> of
                               Some err \<Rightarrow> [Log (''Apply(): '' @ err)]
                             | None \<Rightarrow> []))
                     (filter (\<lambda>x. ttl x < clock t - last_activity x) (sessions t)))\<rparr>)) \<and>
   proposals (described_turn t) =
     (if chan t = expireSessionsTimer \<and> node_State t = Leader
      then map (\<lambda>x. (\<lparr>msg_session = session_id x, msg_type = DeleteSession\<rparr>, 10000000000))
             (filter (\<lambda>x. ttl x < clock t - last_activity x) (sessions t))
      else [])"
proof (intro conjI impI)
  show "expireSessionsInterval = 10 * 1000000000"
    by (simp add: expireSessionsInterval_def Second_def)
next
  assume a: "main_startup env (start fl d) = Some (Return u s0)"
  from main_startup_arms_timers[OF a] show "\<exists>pre. trace s0 = pre @ [After 10000000000, Tick 1000000000]" .
  from a show "main env fl d ticks = Some (main_loop ticks s0)" by (simp add: main_def)
next
  show "main_loop ticks s =
     (if \<exists>t \<in> set ticks. chan t = secondTicker \<and> node_State t = Shutdown
      then Exit 1 (s\<lparr>trace := trace s @
             concat (map described_turn
                (takeWhile (\<lambda>t. \<not> (chan t = secondTicker \<and> node_State t = Shutdown)) ticks)) @
             [Log ''Node removed from the network (in raft state shutdown), terminating.'']\<rparr>)
      else Return () (s\<lparr>trace := trace s @ concat (map described_turn ticks)\<rparr>))"
    using main_loop_described[of ticks s] by (simp add: sees_shutdown_def[abs_def])
next
  assume "chan t = expireSessionsTimer \<and> node_State t \<noteq> Leader"
  then show "loop_step t s = Return () (s\<lparr>trace := trace s @ [After 10000000000]\<rparr>)"
    using loop_step_described[of t s] by (simp add: sees_shutdown_def described_turn_def)
next
  assume "chan t = expireSessionsTimer \<and> node_State t = Leader"
  then show "loop_step t s =
        Return () (s\<lparr>trace := trace s @ After 10000000000 #
           concat (map (\<lambda>x. ApplyMessageWait \<lparr>msg_session = session_id x, msg_type = DeleteSession\<rparr> 10000000000 #
                            (case apply_err t \<lparr>msg_session = session_id x, msg_type = DeleteSession\<rparr> of
                               Some err \<Rightarrow> [Log (''Apply(): '' @ err)]
                             | None \<Rightarrow> []))
                     (filter (\<lambda>x. ttl x < clock t - last_activity x) (sessions t)))\<rparr>)"
    using loop_step_described[of t s]
    by (simp add: sees_shutdown_def described_turn_def expiry_message_def)
next
  show "proposals (described_turn t) =
     (if chan t = expireSessionsTimer \<and> node_State t = Leader
      then map (\<lambda>x. (\<lparr>msg_session = session_id x, msg_type = DeleteSession\<rparr>, 10000000000))
             (filter (\<lambda>x. ttl x < clock t - last_activity x) (sessions t))
      else [])"
    using proposals_described[of t] by (simp add: expiry_message_def)
qed

theorem session_expiry_every_ten_seconds_witness:
  "\<exists>s0 pre.
      main_startup quiet_env (start (example_flags\<lparr>singleNode := True\<rparr>) joined_disk) = Some (Return () s0) \<and>
      trace s0 = pre @ [After 10000000000, Tick 1000000000] \<and>
      main quiet_env (example_flags\<lparr>singleNode := True\<rparr>) joined_disk example_ticks =
        Some (Return () (s0\<lparr>trace := trace s0 @
           [After 10000000000, After 10000000000,
            ApplyMessageWait \<lparr>msg_session = 7, msg_type = DeleteSession\<rparr> 10000000000]\<rparr>)) \<and>
      proposals (described_turn (example_ticks ! 0)) = [] \<and>
      proposals (described_turn (example_ticks ! 2)) =
        [(\<lparr>msg_session = 7, msg_type = DeleteSession\<rparr>, 10000000000)]"
proof -
  let ?fl = "example_flags\<lparr>singleNode := True\<rparr>"
  have "map_option (\<lambda>r. case r of Return u s \<Rightarrow> True | Exit c s \<Rightarrow> False)
          (main_startup quiet_env (start ?fl joined_disk)) = Some True"
    by (simp add: model_defs)
  then obtain r where r: "main_startup quiet_env (start ?fl joined_disk) = Some r"
    "(case r of Return u s \<Rightarrow> True | Exit c s \<Rightarrow> False)"
    by auto
  then obtain s0 where run: "main_startup quiet_env (start ?fl joined_disk) = Some (Return () s0)"
    by (cases r) auto
  note inst = session_expiry_every_ten_seconds[where env = quiet_env and fl = ?fl and d = joined_disk
      and u = "()" and ?s0.0 = s0 and ticks = example_ticks and s = s0]
  from inst[THEN conjunct2, THEN conjunct1, rule_format, OF run]
  obtain pre where pre: "trace s0 = pre @ [After 10000000000, Tick 1000000000]"
    and m: "main quiet_env ?fl joined_disk example_ticks = Some (main_loop example_ticks s0)"
    by blast
  have l: "main_loop example_ticks s0 =
      Return () (s0\<lparr>trace := trace s0 @
           [After 10000000000, After 10000000000,
            ApplyMessageWait \<lparr>msg_session = 7, msg_type = DeleteSession\<rparr> 10000000000]\<rparr>)"
    by (subst inst[THEN conjunct2, THEN conjunct2, THEN conjunct1])
       (simp add: example_ticks_def described_turn_def expiry_message_def)
  have p0: "proposals (described_turn (example_ticks ! 0)) = []"
    by (subst session_expiry_every_ten_seconds[THEN conjunct2, THEN conjunct2, THEN conjunct2,
          THEN conjunct2, THEN conjunct2]) (simp add: example_ticks_def)
  have p2: "proposals (described_turn (example_ticks ! 2)) =
        [(\<lparr>msg_session = 7, msg_type = DeleteSession\<rparr>, 10000000000)]"
    by (subst session_expiry_every_ten_seconds[THEN conjunct2, THEN conjunct2, THEN conjunct2,
          THEN conjunct2, THEN conjunct2]) (simp add: example_ticks_def)
  from run pre m l p0 p2 show ?thesis by auto
qed

subsection \<open>The snapshot store\<close>

lemma finish_snapshot_length: "length (finish_snapshot st name snaps) \<le> retain st"
  by (simp add: finish_snapshot_def ReapSnapshots_def)

lemma fold_finish_snapshot_length:
  "length snaps \<le> retain st \<Longrightarrow> length (fold (finish_snapshot st) names snaps) \<le> retain st"
  by (induction names arbitrary: snaps) (simp_all add: finish_snapshot_length)

lemma fold_finish_snapshot_some:
  "names \<noteq> [] \<Longrightarrow> length (fold (finish_snapshot st) names snaps) \<le> retain st"
  by (cases names) (simp_all add: fold_finish_snapshot_length finish_snapshot_length)

text \<open>
  Claim C8. The step of lines 403 to 407 constructs one snapshot store, for the data
  directory and with 5 snapshots to retain (a failure to construct it is fatal). The store
  keeps its snapshots in \<^verbatim>\<open>snapshots\<close> under the data directory, and it holds at most 5
  of them after any number of finished snapshots when it started empty, and after at least
  one finished snapshot whatever it held before.
\<close>

theorem snapshot_store_retains_five:
  "(main_snapshots env s = Return () s' \<longrightarrow>
      trace s' = trace s @ [Init (NewFileSnapshotStoreWithLogger (raftDir (flag s)) 5)]) \<and>
   (main_snapshots env s = Exit c s' \<longrightarrow> c = 1) \<and>
   snapshot_store (NewFileSnapshotStoreWithLogger (raftDir (flag s)) 5) =
     Some \<lparr>store_path = raftDir (flag s) @ [''snapshots''], retain = 5\<rparr> \<and>
   (snapshot_store (NewFileSnapshotStoreWithLogger (raftDir (flag s)) 5) = Some st \<longrightarrow>
      length (fold (finish_snapshot st) names []) \<le> 5 \<and>
      (names \<noteq> [] \<longrightarrow> length (fold (finish_snapshot st) names snaps) \<le> 5))"
proof (intro conjI impI)
  assume "main_snapshots env s = Return () s'"
  then show "trace s' = trace s @ [Init (NewFileSnapshotStoreWithLogger (raftDir (flag s)) 5)]"
    by (auto simp: main_snapshots_def init_def log_Fatal_def split: sum.splits)
next
  assume "main_snapshots env s = Exit c s'"
  then show "c = 1"
    by (auto simp: main_snapshots_def init_def log_Fatal_def split: sum.splits)
next
  show "snapshot_store (NewFileSnapshotStoreWithLogger (raftDir (flag s)) 5) =
     Some \<lparr>store_path = raftDir (flag s) @ [''snapshots''], retain = 5\<rparr>"
    by (simp add: filepath_Join_def)
next
  assume "snapshot_store (NewFileSnapshotStoreWithLogger (raftDir (flag s)) 5) = Some st"
  then have r: "retain st = 5" by auto
  from fold_finish_snapshot_length[of "[]" st names] r
  show "length (fold (finish_snapshot st) names []) \<le> 5" by simp
  {
    assume "names \<noteq> []"
    from fold_finish_snapshot_some[OF this, of st snaps] r
    show "length (fold (finish_snapshot st) names snaps) \<le> 5" by simp
  }
qed

theorem snapshot_store_retains_five_witness:
  "main_snapshots quiet_env (start example_flags joined_disk) =
     Return () (emit (Init (NewFileSnapshotStoreWithLogger [''var'', ''lib'', ''robustirc''] 5))
                  (start example_flags joined_disk)) \<and>
   snapshot_store (NewFileSnapshotStoreWithLogger [''var'', ''lib'', ''robustirc''] 5) =
     Some \<lparr>store_path = [''var'', ''lib'', ''robustirc'', ''snapshots''], retain = 5\<rparr> \<and>
   fold (finish_snapshot \<lparr>store_path = [''var'', ''lib'', ''robustirc'', ''snapshots''], retain = 5\<rparr>)
     [''1'', ''2'', ''3'', ''4'', ''5'', ''6'', ''7''] [] = [''7'', ''6'', ''5'', ''4'', ''3''] \<and>
   length (fold (finish_snapshot \<lparr>store_path = [''var'', ''lib'', ''robustirc'', ''snapshots''], retain = 5\<rparr>)
     [''1'', ''2'', ''3'', ''4'', ''5'', ''6'', ''7''] []) \<le> 5 \<and>
   length (fold (finish_snapshot \<lparr>store_path = [''var'', ''lib'', ''robustirc'', ''snapshots''], retain = 5\<rparr>)
     [''7''] [''6'', ''5'', ''4'', ''3'', ''2'', ''1'']) \<le> 5"
proof -
  let ?s = "start example_flags joined_disk"
  let ?st = "\<lparr>store_path = [''var'', ''lib'', ''robustirc'', ''snapshots''], retain = 5\<rparr>"
  have d: "raftDir (flag ?s) = [''var'', ''lib'', ''robustirc'']" by (simp add: model_defs)
  have run: "main_snapshots quiet_env ?s =
     Return () (emit (Init (NewFileSnapshotStoreWithLogger [''var'', ''lib'', ''robustirc''] 5)) ?s)"
    by (simp add: model_defs)
  have st: "snapshot_store (NewFileSnapshotStoreWithLogger (raftDir (flag ?s)) 5) = Some ?st"
    by (simp add: model_defs)
  note a = snapshot_store_retains_five[where s = ?s and env = quiet_env,
      THEN conjunct2, THEN conjunct2, THEN conjunct1, unfolded d, simplified]
  note b = snapshot_store_retains_five[where s = ?s and st = ?st and snaps = "[''6'', ''5'', ''4'', ''3'', ''2'', ''1'']",
      THEN conjunct2, THEN conjunct2, THEN conjunct2, rule_format, OF st]
  have e: "fold (finish_snapshot ?st) [''1'', ''2'', ''3'', ''4'', ''5'', ''6'', ''7''] [] =
      [''7'', ''6'', ''5'', ''4'', ''3'']"
    by (simp add: finish_snapshot_def ReapSnapshots_def)
  from b[of "[''1'', ''2'', ''3'', ''4'', ''5'', ''6'', ''7'']", THEN conjunct1]
    b[of "[''7'']", THEN conjunct2] run a e
  show ?thesis by simp
qed

end
